theory Spec2Isabelle
  imports Main "HOL-Library.List_Lexorder" "HOL-Library.Char_ord"
begin

section \<open>Telemedicine backend: the controllers over an explicit store\<close>

text \<open>
  The controllers of the repository are sequences of guards and calls to a remote
  relational store. The store is modelled as a record of tables, each table a list of
  rows; beside the tables the record holds the lines that the process has written with
  \<^verbatim>\<open>console.error\<close>. A controller takes this state and returns its answer together
  with the state it leaves behind. A thrown error is the \<open>Inl\<close> branch of the answer.

  Every call to the store may come back with an error. Whether a given call does is
  read from the environment (\<open>fails\<close>), one flag per call site; a call that comes back
  with an error has changed nothing.
\<close>

subsection \<open>Errors and replies\<close>

text \<open>
  \<open>AppError\<close> is the class of \<^verbatim>\<open>middleware/errorHandler.ts\<close>: a message and a status
  code. \<open>ZodError\<close> is what \<^verbatim>\<open>schema.parse\<close> throws; \<open>TypeError\<close> is what reading a
  property of \<^verbatim>\<open>null\<close> throws.
\<close>

datatype failure = AppError string nat | ZodError | TypeError

text \<open>The status code \<^verbatim>\<open>errorHandler\<close> answers with.\<close>

fun errorHandler_status :: "failure \<Rightarrow> nat" where
  "errorHandler_status ZodError = 400"
| "errorHandler_status (AppError m c) = c"
| "errorHandler_status TypeError = 500"

text \<open>A reply is the status code, the message and the data of \<^verbatim>\<open>res.status(..).json(..)\<close>.\<close>

datatype 'a reply = Reply nat string 'a

subsection \<open>Rows and tables\<close>

type_synonym uuid = string

datatype UserRole = RoleUser | RoleDoctor | RoleAdmin

datatype AvailabilityStatus = Available | Booked | Blocked

datatype ConsultationStatus = Scheduled | Ongoing | Completed | Cancelled | NoShow

datatype PaymentStatus = Pending | PaymentCompleted | PaymentFailed | Refunded

text \<open>The text of a consultation status, as it appears in a template string.\<close>

fun status_text :: "ConsultationStatus \<Rightarrow> string" where
  "status_text Scheduled = ''scheduled''"
| "status_text Ongoing = ''ongoing''"
| "status_text Completed = ''completed''"
| "status_text Cancelled = ''cancelled''"
| "status_text NoShow = ''no_show''"

text \<open>
  The rows carry the columns that the controllers write or read. Columns that the store
  fills in itself and that no controller modelled here reads (\<^verbatim>\<open>created_at\<close>,
  \<^verbatim>\<open>updated_at\<close>, the ids of payments and prescription items) are left out.
\<close>

record user_row =
  u_id :: uuid
  u_email :: string
  u_phone :: "string option"
  u_password_hash :: string
  u_role :: UserRole
  u_is_active :: bool
  u_last_login :: "string option"

record profile_row =
  pr_user_id :: uuid
  pr_first_name :: string
  pr_last_name :: string
  pr_date_of_birth :: "string option"
  pr_gender :: "string option"

record doctor_row =
  d_id :: uuid
  d_user_id :: uuid
  d_consultation_fee :: int

record slot_row =
  sl_id :: uuid
  sl_doctor_id :: uuid
  sl_slot_date :: string
  sl_start_time :: string
  sl_end_time :: string
  sl_status :: AvailabilityStatus
  sl_created_by :: "uuid option"

record consultation_row =
  c_id :: uuid
  c_patient_id :: uuid
  c_doctor_id :: uuid
  c_slot_id :: "uuid option"
  c_consultation_date :: string
  c_start_time :: string
  c_end_time :: string
  c_status :: ConsultationStatus
  c_chief_complaint :: "string option"
  c_diagnosis :: "string option"
  c_notes :: "string option"
  c_meeting_link :: "string option"

record payment_row =
  pay_consultation_id :: uuid
  pay_patient_id :: uuid
  pay_amount :: int
  pay_status :: PaymentStatus

record prescription_row =
  p_id :: uuid
  p_consultation_id :: uuid
  p_doctor_id :: uuid
  p_patient_id :: uuid
  p_notes :: "string option"

record prescription_item_row =
  pi_prescription_id :: uuid
  pi_medicine_id :: uuid
  pi_dosage :: string
  pi_frequency :: string
  pi_duration_days :: int
  pi_instructions :: "string option"

record medicine_row =
  m_id :: uuid
  m_name :: string
  m_in_stock :: bool

text \<open>
  The tables, and the console: a line of it is the text and the message of the error
  object that \<^verbatim>\<open>console.error\<close> was given.
\<close>

record db =
  users :: "user_row list"
  profiles :: "profile_row list"
  doctors :: "doctor_row list"
  slots :: "slot_row list"
  consultations :: "consultation_row list"
  payments :: "payment_row list"
  prescriptions :: "prescription_row list"
  prescription_items :: "prescription_item_row list"
  medicines :: "medicine_row list"
  console :: "(string \<times> string) list"

subsection \<open>The environment of a request\<close>

text \<open>The call sites of the store in the controllers modelled below.\<close>

datatype call =
    SelectDoctor | SelectOverlap | InsertSlot | SelectSlot | UpdateSlot
  | InsertConsultation | BookSlot | DeleteConsultation | InsertPayment
  | SelectConsultation | UpdateConsultation | FreeSlot
  | SelectPrescription | SelectMedicines | InsertPrescription | InsertItems
  | DeletePrescription | SelectComplete
  | SelectUser | InsertUser | InsertProfile | DeleteUser | UpdateLastLogin

text \<open>
  What a controller takes from outside the repository: which store calls fail, the id
  the store gives to the row a request inserts, the clock (\<^verbatim>\<open>new Date()\<close> in
  milliseconds and as ISO text), the \<^verbatim>\<open>Date\<close> constructor on a string (\<open>None\<close> is the
  invalid date), which texts the store takes for a value of the columns \<^verbatim>\<open>slot_date\<close>
  and \<^verbatim>\<open>start_time\<close>, \<^verbatim>\<open>end_time\<close> (every text, if they are text columns; calendar
  dates and clock times, if they are date and time columns), the checks of the validation library for uuids, urls and email
  addresses, \<^verbatim>\<open>bcrypt.hash\<close>, \<^verbatim>\<open>bcrypt.compare\<close>, \<^verbatim>\<open>jwt.sign\<close>, the default of
  the column \<^verbatim>\<open>is_active\<close>, which \<^verbatim>\<open>register\<close> does not supply, and the message that
  comes with an error of the store.
\<close>

record env =
  fails :: "call \<Rightarrow> bool"
  newId :: uuid
  now :: int
  nowISO :: string
  parseDate :: "string \<Rightarrow> int option"
  date_ok :: "string \<Rightarrow> bool"
  time_ok :: "string \<Rightarrow> bool"
  uuid_ok :: "string \<Rightarrow> bool"
  url_ok :: "string \<Rightarrow> bool"
  email_ok :: "string \<Rightarrow> bool"
  bcrypt_hash :: "string \<Rightarrow> string"
  bcrypt_compare :: "string \<Rightarrow> string \<Rightarrow> bool"
  jwt_sign :: "uuid \<Rightarrow> string \<Rightarrow> UserRole \<Rightarrow> string"
  default_is_active :: bool
  error_message :: string

text \<open>The user that the authentication middleware attaches to the request.\<close>

record auth_user =
  au_id :: uuid
  au_email :: string
  au_role :: UserRole

subsection \<open>The calls of the store client\<close>

text \<open>\<^verbatim>\<open>.single()\<close>: the row when exactly one row is selected, an error otherwise.\<close>

fun single :: "'a list \<Rightarrow> 'a option" where
  "single [x] = Some x"
| "single xs = None"

text \<open>A select of many rows; \<open>None\<close> is \<^verbatim>\<open>data: null\<close> with an error.\<close>

definition select_rows :: "bool \<Rightarrow> ('a \<Rightarrow> bool) \<Rightarrow> 'a list \<Rightarrow> 'a list option" where
  "select_rows err P t = (if err then None else Some (filter P t))"

text \<open>\<^verbatim>\<open>.select(..).eq(..).single()\<close>.\<close>

definition select_single :: "bool \<Rightarrow> ('a \<Rightarrow> bool) \<Rightarrow> 'a list \<Rightarrow> 'a option" where
  "select_single err P t = (if err then None else single (filter P t))"

text \<open>
  \<^verbatim>\<open>.insert(row).select().single()\<close>: the store gives the row its id, which is the
  primary key, so that an id already in the table is an error. The answer is the
  inserted row and the new table.
\<close>

definition insert_single ::
  "bool \<Rightarrow> ('a \<Rightarrow> uuid) \<Rightarrow> 'a \<Rightarrow> 'a list \<Rightarrow> ('a \<times> 'a list) option" where
  "insert_single err key row t =
     (if err \<or> key row \<in> set (map key t) then None else Some (row, t @ [row]))"

text \<open>\<^verbatim>\<open>.insert(rows)\<close> of rows without a key of their own: all of them or none.\<close>

definition insert_rows :: "bool \<Rightarrow> 'a list \<Rightarrow> 'a list \<Rightarrow> 'a list option" where
  "insert_rows err rows t = (if err then None else Some (t @ rows))"

text \<open>\<^verbatim>\<open>.update(..).eq(..)\<close>: every selected row is changed.\<close>

definition update_rows ::
  "bool \<Rightarrow> ('a \<Rightarrow> bool) \<Rightarrow> ('a \<Rightarrow> 'a) \<Rightarrow> 'a list \<Rightarrow> 'a list option" where
  "update_rows err P f t = (if err then None else Some (map (\<lambda>r. if P r then f r else r) t))"

text \<open>
  \<^verbatim>\<open>.update(..).eq(..).select().single()\<close>: an error, and no change, unless exactly one
  row is selected; else the changed row and the new table.
\<close>

definition update_single ::
  "bool \<Rightarrow> ('a \<Rightarrow> bool) \<Rightarrow> ('a \<Rightarrow> 'a) \<Rightarrow> 'a list \<Rightarrow> ('a \<times> 'a list) option" where
  "update_single err P f t =
     (if err then None
      else case single (filter P t) of
             None \<Rightarrow> None
           | Some r \<Rightarrow> Some (f r, map (\<lambda>r. if P r then f r else r) t))"

text \<open>\<^verbatim>\<open>.delete().eq(..)\<close>.\<close>

definition delete_rows :: "bool \<Rightarrow> ('a \<Rightarrow> bool) \<Rightarrow> 'a list \<Rightarrow> 'a list option" where
  "delete_rows err P t = (if err then None else Some (filter (\<lambda>r. \<not> P r) t))"

text \<open>\<^verbatim>\<open>x || null\<close> on an optional string: the empty string is falsy.\<close>

fun or_null :: "string option \<Rightarrow> string option" where
  "or_null None = None"
| "or_null (Some s) = (if s = [] then None else Some s)"

subsection \<open>Request validation (validation/schemas.ts)\<close>

text \<open>\<^verbatim>\<open>\d\<close> of a JavaScript regular expression without the unicode flag.\<close>

definition digit :: "char \<Rightarrow> bool" where
  "digit c = (CHR ''0'' \<le> c \<and> c \<le> CHR ''9'')"

text \<open>\<^verbatim>\<open>/^\d{4}-\d{2}-\d{2}$/\<close>\<close>

fun date_format :: "string \<Rightarrow> bool" where
  "date_format [y1, y2, y3, y4, s1, m1, m2, s2, d1, d2] =
     (digit y1 \<and> digit y2 \<and> digit y3 \<and> digit y4 \<and> s1 = CHR ''-'' \<and>
      digit m1 \<and> digit m2 \<and> s2 = CHR ''-'' \<and> digit d1 \<and> digit d2)"
| "date_format s = False"

text \<open>\<^verbatim>\<open>/^\d{2}:\d{2}:\d{2}$/\<close>\<close>

fun time_format :: "string \<Rightarrow> bool" where
  "time_format [h1, h2, s1, m1, m2, s2, c1, c2] =
     (digit h1 \<and> digit h2 \<and> s1 = CHR '':'' \<and> digit m1 \<and> digit m2 \<and>
      s2 = CHR '':'' \<and> digit c1 \<and> digit c2)"
| "time_format s = False"

record createSlot_body =
  cs_slotDate :: string
  cs_startTime :: string
  cs_endTime :: string

text \<open>
  \<^verbatim>\<open>createSlotSchema\<close>: the three formats, and \<^verbatim>\<open>data.endTime > data.startTime\<close>, a
  comparison of strings.
\<close>

definition createSlotSchema :: "createSlot_body \<Rightarrow> bool" where
  "createSlotSchema b =
     (date_format (cs_slotDate b) \<and> time_format (cs_startTime b) \<and>
      time_format (cs_endTime b) \<and> cs_endTime b > cs_startTime b)"

record updateSlot_body =
  us_slotDate :: "string option"
  us_startTime :: "string option"
  us_endTime :: "string option"
  us_status :: "AvailabilityStatus option"

text \<open>\<^verbatim>\<open>updateSlotSchema\<close>: every field optional, the formats checked where present.\<close>

definition updateSlotSchema :: "updateSlot_body \<Rightarrow> bool" where
  "updateSlotSchema b =
     ((case us_slotDate b of None \<Rightarrow> True | Some s \<Rightarrow> date_format s) \<and>
      (case us_startTime b of None \<Rightarrow> True | Some s \<Rightarrow> time_format s) \<and>
      (case us_endTime b of None \<Rightarrow> True | Some s \<Rightarrow> time_format s))"

subsection \<open>Availability slots (controllers/slotController.ts)\<close>

text \<open>
  The overlap filter of \<^verbatim>\<open>createSlot\<close>:
  \<^verbatim>\<open>.eq('doctor_id', doctor.id).eq('slot_date', slotDate)
   .or(`and(start_time.lte.${endTime},end_time.gte.${startTime})`)\<close>.
  The times are compared as the texts \<^verbatim>\<open>HH:MM:SS\<close>, whose order is the order of the
  clock times they denote.
\<close>

definition overlap_filter :: "uuid \<Rightarrow> createSlot_body \<Rightarrow> slot_row \<Rightarrow> bool" where
  "overlap_filter did b s =
     (sl_doctor_id s = did \<and> sl_slot_date s = cs_slotDate b \<and>
      sl_start_time s \<le> cs_endTime b \<and> sl_end_time s \<ge> cs_startTime b)"

text \<open>
  The store answers the overlap query and the insert with an error when it does not take
  the date or one of the times of the request for a value of its column.
\<close>

definition store_reads :: "env \<Rightarrow> createSlot_body \<Rightarrow> bool" where
  "store_reads e b =
     (date_ok e (cs_slotDate b) \<and> time_ok e (cs_startTime b) \<and> time_ok e (cs_endTime b))"

definition createSlot ::
  "env \<Rightarrow> db \<Rightarrow> auth_user option \<Rightarrow> createSlot_body \<Rightarrow> (failure + slot_row reply) \<times> db" where
  "createSlot e s user b =
     (if \<not> createSlotSchema b then (Inl ZodError, s)
      else case user of
        None \<Rightarrow> (Inl (AppError ''Unauthorized'' 401), s)
      | Some u \<Rightarrow>
         (case select_single (fails e SelectDoctor) (\<lambda>d. d_user_id d = au_id u) (doctors s) of
            None \<Rightarrow> (Inl (AppError ''Doctor profile not found'' 404), s)
          | Some doctor \<Rightarrow>
             (case select_rows (fails e SelectOverlap \<or> \<not> store_reads e b)
                     (overlap_filter (d_id doctor) b) (slots s) of
                Some (x # xs) \<Rightarrow>
                  (Inl (AppError ''This time slot overlaps with an existing slot'' 409), s)
              | _ \<Rightarrow>
                 (case insert_single (fails e InsertSlot \<or> \<not> store_reads e b) sl_id
                         \<lparr>sl_id = newId e, sl_doctor_id = d_id doctor,
                          sl_slot_date = cs_slotDate b, sl_start_time = cs_startTime b,
                          sl_end_time = cs_endTime b, sl_status = Available,
                          sl_created_by = Some (au_id u)\<rparr> (slots s) of
                    None \<Rightarrow> (Inl (AppError ''Failed to create slot'' 500), s)
                  | Some (slot, t) \<Rightarrow>
                      (Inr (Reply 201 ''Availability slot created successfully'' slot),
                       s\<lparr>slots := t\<rparr>)))))"

text \<open>
  The columns of the slot table, as the inserts, the filters and the interface
  \<^verbatim>\<open>AvailabilitySlot\<close> name them.
\<close>

definition slot_columns :: "string list" where
  "slot_columns = [''id'', ''doctor_id'', ''slot_date'', ''start_time'', ''end_time'',
                   ''status'', ''created_by'', ''created_at'', ''updated_at'']"

text \<open>
  \<^verbatim>\<open>updateSlot\<close> hands the validated body to \<^verbatim>\<open>.update\<close> as it is, so the keys of the
  payload are the keys of the schema that are present in the request.
\<close>

definition updateSlot_keys :: "updateSlot_body \<Rightarrow> string list" where
  "updateSlot_keys b =
     (if us_slotDate b = None then [] else [''slotDate'']) @
     (if us_startTime b = None then [] else [''startTime'']) @
     (if us_endTime b = None then [] else [''endTime'']) @
     (if us_status b = None then [] else [''status''])"

text \<open>
  The store answers a payload that has a key which is no column of the table with an
  error (the other updates of the repository, \<^verbatim>\<open>updateDoctorProfile\<close> and
  \<^verbatim>\<open>updateMedicine\<close>, rename their keys to the columns first). Of the keys of
  \<^verbatim>\<open>updateSlotSchema\<close> only \<^verbatim>\<open>status\<close> is a column, so this is all a payload changes.
  A payload without any key updates no row, so that \<^verbatim>\<open>.single()\<close> after it is an error.
\<close>

definition payload_ok :: "string list \<Rightarrow> string list \<Rightarrow> bool" where
  "payload_ok columns keys = (keys \<noteq> [] \<and> list_all (\<lambda>k. k \<in> set columns) keys)"

definition updateSlot_payload :: "updateSlot_body \<Rightarrow> slot_row \<Rightarrow> slot_row" where
  "updateSlot_payload b r =
     (case us_status b of None \<Rightarrow> r | Some st \<Rightarrow> r\<lparr>sl_status := st\<rparr>)"

text \<open>The embedded row of a to-one relation (\<^verbatim>\<open>adoctors(..)\<close> in a select): the row or null.\<close>

definition embed_doctor :: "db \<Rightarrow> uuid \<Rightarrow> doctor_row option" where
  "embed_doctor s did = find (\<lambda>d. d_id d = did) (doctors s)"

definition updateSlot ::
  "env \<Rightarrow> db \<Rightarrow> auth_user option \<Rightarrow> uuid \<Rightarrow> updateSlot_body \<Rightarrow> (failure + slot_row reply) \<times> db" where
  "updateSlot e s user slotId b =
     (if \<not> updateSlotSchema b then (Inl ZodError, s)
      else case user of
        None \<Rightarrow> (Inl (AppError ''Unauthorized'' 401), s)
      | Some u \<Rightarrow>
         (case select_single (fails e SelectSlot) (\<lambda>r. sl_id r = slotId) (slots s) of
            None \<Rightarrow> (Inl (AppError ''Slot not found'' 404), s)
          | Some slot \<Rightarrow>
             if au_role u = RoleDoctor \<and>
                map_option d_user_id (embed_doctor s (sl_doctor_id slot)) \<noteq> Some (au_id u)
             then (Inl (AppError ''You can only update your own slots'' 403), s)
             else
              (case update_single
                      (fails e UpdateSlot \<or> \<not> payload_ok slot_columns (updateSlot_keys b))
                      (\<lambda>r. sl_id r = slotId) (updateSlot_payload b) (slots s) of
                 None \<Rightarrow> (Inl (AppError ''Failed to update slot'' 500), s)
               | Some (updatedSlot, t) \<Rightarrow>
                   (Inr (Reply 200 ''Slot updated successfully'' updatedSlot), s\<lparr>slots := t\<rparr>))))"

subsection \<open>Consultations (controllers/consultationController.ts)\<close>

record bookConsultation_body =
  bc_doctorId :: string
  bc_slotId :: string
  bc_chiefComplaint :: string

definition bookConsultationSchema :: "env \<Rightarrow> bookConsultation_body \<Rightarrow> bool" where
  "bookConsultationSchema e b =
     (uuid_ok e (bc_doctorId b) \<and> uuid_ok e (bc_slotId b) \<and> length (bc_chiefComplaint b) \<ge> 1)"

text \<open>
  \<^verbatim>\<open>new Date(`${slot.slot_date}T${slot.start_time}`) < new Date()\<close>: a comparison with the
  invalid date is false.
\<close>

definition in_the_past :: "env \<Rightarrow> slot_row \<Rightarrow> bool" where
  "in_the_past e slot =
     (case parseDate e (sl_slot_date slot @ ''T'' @ sl_start_time slot) of
        None \<Rightarrow> False
      | Some t \<Rightarrow> t < now e)"

text \<open>
  The row that \<^verbatim>\<open>bookConsultation\<close> inserts, with the id the store gives it; the columns
  the insert does not name are null.
\<close>

definition new_consultation ::
  "env \<Rightarrow> auth_user \<Rightarrow> bookConsultation_body \<Rightarrow> slot_row \<Rightarrow> consultation_row" where
  "new_consultation e u b slot =
     \<lparr>c_id = newId e, c_patient_id = au_id u, c_doctor_id = bc_doctorId b,
      c_slot_id = Some (bc_slotId b), c_consultation_date = sl_slot_date slot,
      c_start_time = sl_start_time slot, c_end_time = sl_end_time slot,
      c_status = Scheduled, c_chief_complaint = Some (bc_chiefComplaint b),
      c_diagnosis = None, c_notes = None, c_meeting_link = None\<rparr>"

definition bookConsultation ::
  "env \<Rightarrow> db \<Rightarrow> auth_user option \<Rightarrow> bookConsultation_body
     \<Rightarrow> (failure + consultation_row reply) \<times> db" where
  "bookConsultation e s user b =
     (if \<not> bookConsultationSchema e b then (Inl ZodError, s)
      else case user of
        None \<Rightarrow> (Inl (AppError ''Unauthorized'' 401), s)
      | Some u \<Rightarrow>
         (case select_single (fails e SelectSlot) (\<lambda>r. sl_id r = bc_slotId b) (slots s) of
            None \<Rightarrow> (Inl (AppError ''Slot not found'' 404), s)
          | Some slot \<Rightarrow>
             if sl_status slot \<noteq> Available
             then (Inl (AppError ''This slot is not available for booking'' 400), s)
             else if sl_doctor_id slot \<noteq> bc_doctorId b
             then (Inl (AppError ''Slot does not belong to the specified doctor'' 400), s)
             else if in_the_past e slot
             then (Inl (AppError ''Cannot book a slot in the past'' 400), s)
             else
              (case insert_single (fails e InsertConsultation) c_id
                      (new_consultation e u b slot) (consultations s) of
                 None \<Rightarrow> (Inl (AppError ''Failed to book consultation'' 500), s)
               | Some (consultation, ct) \<Rightarrow>
                  let s1 = s\<lparr>consultations := ct\<rparr> in
                  (case update_rows (fails e BookSlot) (\<lambda>r. sl_id r = bc_slotId b)
                          (\<lambda>r. r\<lparr>sl_status := Booked\<rparr>) (slots s1) of
                     None \<Rightarrow>
                       (Inl (AppError ''Failed to book slot'' 500),
                        (case delete_rows (fails e DeleteConsultation)
                                (\<lambda>c. c_id c = c_id consultation) (consultations s1) of
                           None \<Rightarrow> s1
                         | Some ct' \<Rightarrow> s1\<lparr>consultations := ct'\<rparr>))
                   | Some st \<Rightarrow>
                      let s2 = s1\<lparr>slots := st\<rparr> in
                      (case embed_doctor s (sl_doctor_id slot) of
                         None \<Rightarrow> (Inl TypeError, s2)
                       | Some doctorInfo \<Rightarrow>
                          (Inr (Reply 201 ''Consultation booked successfully'' consultation),
                           (case insert_rows (fails e InsertPayment)
                                   [\<lparr>pay_consultation_id = c_id consultation,
                                     pay_patient_id = au_id u,
                                     pay_amount = d_consultation_fee doctorInfo,
                                     pay_status = Pending\<rparr>] (payments s2) of
                              None \<Rightarrow>
                                s2\<lparr>console := console s2 @
                                     [(''Failed to create payment record:'', error_message e)]\<rparr>
                            | Some pt \<Rightarrow> s2\<lparr>payments := pt\<rparr>)))))))"

record updateConsultation_body =
  uc_status :: "ConsultationStatus option"
  uc_diagnosis :: "string option"
  uc_notes :: "string option"
  uc_meetingLink :: "string option"

definition updateConsultationSchema :: "env \<Rightarrow> updateConsultation_body \<Rightarrow> bool" where
  "updateConsultationSchema e b =
     (case uc_meetingLink b of None \<Rightarrow> True | Some l \<Rightarrow> url_ok e l)"

text \<open>The columns of the consultation table, as the interface \<^verbatim>\<open>Consultation\<close> names them.\<close>

definition consultation_columns :: "string list" where
  "consultation_columns =
     [''id'', ''patient_id'', ''doctor_id'', ''slot_id'', ''consultation_date'', ''start_time'',
      ''end_time'', ''status'', ''chief_complaint'', ''diagnosis'', ''notes'', ''meeting_link'',
      ''actual_start_time'', ''actual_end_time'', ''created_at'', ''updated_at'']"

text \<open>
  \<^verbatim>\<open>updateConsultation\<close> hands the validated body to \<^verbatim>\<open>.update\<close> as it is too. Of its
  keys \<^verbatim>\<open>status\<close>, \<^verbatim>\<open>diagnosis\<close> and \<^verbatim>\<open>notes\<close> are columns; \<^verbatim>\<open>meetingLink\<close> is not
  (the column is \<^verbatim>\<open>meeting_link\<close>).
\<close>

definition updateConsultation_keys :: "updateConsultation_body \<Rightarrow> string list" where
  "updateConsultation_keys b =
     (if uc_status b = None then [] else [''status'']) @
     (if uc_diagnosis b = None then [] else [''diagnosis'']) @
     (if uc_notes b = None then [] else [''notes'']) @
     (if uc_meetingLink b = None then [] else [''meetingLink''])"

definition updateConsultation_payload ::
  "updateConsultation_body \<Rightarrow> consultation_row \<Rightarrow> consultation_row" where
  "updateConsultation_payload b r =
     r\<lparr>c_status := (case uc_status b of None \<Rightarrow> c_status r | Some st \<Rightarrow> st),
       c_diagnosis := (case uc_diagnosis b of None \<Rightarrow> c_diagnosis r | Some d \<Rightarrow> Some d),
       c_notes := (case uc_notes b of None \<Rightarrow> c_notes r | Some n \<Rightarrow> Some n)\<rparr>"

text \<open>
  \<^verbatim>\<open>await supabase.from('aavailability_slots').update({ status: 'available' })
   .eq('id', consultation.slot_id)\<close>, its outcome not looked at.
\<close>

definition free_slot :: "env \<Rightarrow> uuid \<Rightarrow> db \<Rightarrow> db" where
  "free_slot e sid s =
     (case update_rows (fails e FreeSlot) (\<lambda>r. sl_id r = sid)
             (\<lambda>r. r\<lparr>sl_status := Available\<rparr>) (slots s) of
        None \<Rightarrow> s
      | Some st \<Rightarrow> s\<lparr>slots := st\<rparr>)"

text \<open>\<^verbatim>\<open>if (consultation.slot_id) { .. }\<close>: an empty or absent id is falsy.\<close>

definition free_slot_if :: "env \<Rightarrow> uuid option \<Rightarrow> db \<Rightarrow> db" where
  "free_slot_if e sid s =
     (case sid of None \<Rightarrow> s | Some i \<Rightarrow> if i = [] then s else free_slot e i s)"

definition updateConsultation ::
  "env \<Rightarrow> db \<Rightarrow> auth_user option \<Rightarrow> uuid \<Rightarrow> updateConsultation_body
     \<Rightarrow> (failure + consultation_row reply) \<times> db" where
  "updateConsultation e s user consultationId b =
     (if \<not> updateConsultationSchema e b then (Inl ZodError, s)
      else case user of
        None \<Rightarrow> (Inl (AppError ''Unauthorized'' 401), s)
      | Some u \<Rightarrow>
         (case select_single (fails e SelectConsultation) (\<lambda>c. c_id c = consultationId)
                 (consultations s) of
            None \<Rightarrow> (Inl (AppError ''Consultation not found'' 404), s)
          | Some consultation \<Rightarrow>
             if au_role u = RoleDoctor \<and>
                map_option d_user_id (embed_doctor s (c_doctor_id consultation)) \<noteq> Some (au_id u)
             then (Inl (AppError ''You can only update your own consultations'' 403), s)
             else
              (case update_single
                      (fails e UpdateConsultation \<or>
                       \<not> payload_ok consultation_columns (updateConsultation_keys b))
                      (\<lambda>c. c_id c = consultationId) (updateConsultation_payload b)
                      (consultations s) of
                 None \<Rightarrow> (Inl (AppError ''Failed to update consultation'' 500), s)
               | Some (updatedConsultation, ct) \<Rightarrow>
                  let s1 = s\<lparr>consultations := ct\<rparr> in
                  (Inr (Reply 200 ''Consultation updated successfully'' updatedConsultation),
                   (if uc_status b = Some Cancelled
                    then free_slot_if e (c_slot_id consultation) s1
                    else s1)))))"

definition cancelConsultation ::
  "env \<Rightarrow> db \<Rightarrow> auth_user option \<Rightarrow> uuid \<Rightarrow> (failure + unit reply) \<times> db" where
  "cancelConsultation e s user consultationId =
     (case user of
        None \<Rightarrow> (Inl (AppError ''Unauthorized'' 401), s)
      | Some u \<Rightarrow>
         (case select_single (fails e SelectConsultation) (\<lambda>c. c_id c = consultationId)
                 (consultations s) of
            None \<Rightarrow> (Inl (AppError ''Consultation not found'' 404), s)
          | Some consultation \<Rightarrow>
             if au_role u = RoleUser \<and> c_patient_id consultation \<noteq> au_id u
             then (Inl (AppError ''You can only cancel your own consultations'' 403), s)
             else if c_status consultation = Completed \<or> c_status consultation = Cancelled
             then (Inl (AppError (''Cannot cancel a '' @ status_text (c_status consultation) @
                                   '' consultation'') 400), s)
             else
              (case update_rows (fails e UpdateConsultation) (\<lambda>c. c_id c = consultationId)
                      (\<lambda>c. c\<lparr>c_status := Cancelled\<rparr>) (consultations s) of
                 None \<Rightarrow> (Inl (AppError ''Failed to cancel consultation'' 500), s)
               | Some ct \<Rightarrow>
                  let s1 = s\<lparr>consultations := ct\<rparr> in
                  (Inr (Reply 200 ''Consultation cancelled successfully'' ()),
                   free_slot_if e (c_slot_id consultation) s1))))"

subsection \<open>Prescriptions (controllers/prescriptionController.ts)\<close>

record item_body =
  it_medicineId :: string
  it_dosage :: string
  it_frequency :: string
  it_durationDays :: int
  it_instructions :: "string option"

record createPrescription_body =
  cp_consultationId :: string
  cp_notes :: "string option"
  cp_items :: "item_body list"

definition createPrescriptionSchema :: "env \<Rightarrow> createPrescription_body \<Rightarrow> bool" where
  "createPrescriptionSchema e b =
     (uuid_ok e (cp_consultationId b) \<and>
      list_all (\<lambda>i. uuid_ok e (it_medicineId i) \<and> length (it_dosage i) \<ge> 1 \<and>
                     length (it_frequency i) \<ge> 1 \<and> it_durationDays i \<ge> 1) (cp_items b) \<and>
      length (cp_items b) \<ge> 1)"

text \<open>\<^verbatim>\<open>Array.prototype.join\<close> on strings.\<close>

fun join :: "string \<Rightarrow> string list \<Rightarrow> string" where
  "join sep [] = []"
| "join sep [x] = x"
| "join sep (x # y # ys) = x @ sep @ join sep (y # ys)"

text \<open>
  The prescription with its items and the medicine of each item, as the last select of
  \<^verbatim>\<open>createPrescription\<close> reads it back; \<open>None\<close> is \<^verbatim>\<open>data: null\<close>.
\<close>

type_synonym complete_prescription =
  "(prescription_row \<times> (prescription_item_row \<times> medicine_row option) list) option"

definition select_complete :: "env \<Rightarrow> db \<Rightarrow> uuid \<Rightarrow> complete_prescription" where
  "select_complete e s pid =
     (case select_single (fails e SelectComplete) (\<lambda>p. p_id p = pid) (prescriptions s) of
        None \<Rightarrow> None
      | Some p \<Rightarrow>
          Some (p, map (\<lambda>i. (i, find (\<lambda>m. m_id m = pi_medicine_id i) (medicines s)))
                       (filter (\<lambda>i. pi_prescription_id i = pid) (prescription_items s))))"

text \<open>The rows that \<^verbatim>\<open>createPrescription\<close> inserts: the prescription, and one row an item.\<close>

definition new_prescription ::
  "env \<Rightarrow> doctor_row \<Rightarrow> consultation_row \<Rightarrow> createPrescription_body \<Rightarrow> prescription_row" where
  "new_prescription e doctor consultation b =
     \<lparr>p_id = newId e, p_consultation_id = cp_consultationId b, p_doctor_id = d_id doctor,
      p_patient_id = c_patient_id consultation, p_notes = cp_notes b\<rparr>"

definition new_item :: "uuid \<Rightarrow> item_body \<Rightarrow> prescription_item_row" where
  "new_item pid i =
     \<lparr>pi_prescription_id = pid, pi_medicine_id = it_medicineId i, pi_dosage = it_dosage i,
      pi_frequency = it_frequency i, pi_duration_days = it_durationDays i,
      pi_instructions = it_instructions i\<rparr>"

definition createPrescription ::
  "env \<Rightarrow> db \<Rightarrow> auth_user option \<Rightarrow> createPrescription_body
     \<Rightarrow> (failure + complete_prescription reply) \<times> db" where
  "createPrescription e s user b =
     (if \<not> createPrescriptionSchema e b then (Inl ZodError, s)
      else case user of
        None \<Rightarrow> (Inl (AppError ''Unauthorized'' 401), s)
      | Some u \<Rightarrow>
        (case select_single (fails e SelectDoctor) (\<lambda>d. d_user_id d = au_id u) (doctors s) of
           None \<Rightarrow> (Inl (AppError ''Doctor profile not found'' 404), s)
         | Some doctor \<Rightarrow>
           (case select_single (fails e SelectConsultation)
                   (\<lambda>c. c_id c = cp_consultationId b) (consultations s) of
              None \<Rightarrow> (Inl (AppError ''Consultation not found'' 404), s)
            | Some consultation \<Rightarrow>
               if c_doctor_id consultation \<noteq> d_id doctor
               then (Inl (AppError ''You can only prescribe for your own consultations'' 403), s)
               else if c_status consultation \<noteq> Completed \<and> c_status consultation \<noteq> Ongoing
               then (Inl (AppError
                      ''Can only prescribe for ongoing or completed consultations'' 400), s)
               else
                (case select_single (fails e SelectPrescription)
                        (\<lambda>p. p_consultation_id p = cp_consultationId b) (prescriptions s) of
                   Some existingPrescription \<Rightarrow>
                     (Inl (AppError ''Prescription already exists for this consultation'' 409), s)
                 | None \<Rightarrow>
                    let medicineIds = map it_medicineId (cp_items b) in
                    (case select_rows (fails e SelectMedicines)
                            (\<lambda>m. m_id m \<in> set medicineIds) (medicines s) of
                       None \<Rightarrow> (Inl (AppError ''One or more medicines not found'' 404), s)
                     | Some meds \<Rightarrow>
                        if length meds \<noteq> length medicineIds
                        then (Inl (AppError ''One or more medicines not found'' 404), s)
                        else
                         let outOfStockMedicines = filter (\<lambda>m. \<not> m_in_stock m) meds in
                         if length outOfStockMedicines > 0
                         then (Inl (AppError (''Following medicines are out of stock: '' @
                                      join '', '' (map m_name outOfStockMedicines)) 400), s)
                         else
                          (case insert_single (fails e InsertPrescription) p_id
                                  (new_prescription e doctor consultation b)
                                  (prescriptions s) of
                             None \<Rightarrow> (Inl (AppError ''Failed to create prescription'' 500), s)
                           | Some (prescription, pt) \<Rightarrow>
                              let s1 = s\<lparr>prescriptions := pt\<rparr> in
                              (case insert_rows (fails e InsertItems)
                                      (map (new_item (p_id prescription)) (cp_items b))
                                      (prescription_items s1) of
                                 None \<Rightarrow>
                                   (Inl (AppError ''Failed to create prescription items'' 500),
                                    (case delete_rows (fails e DeletePrescription)
                                            (\<lambda>p. p_id p = p_id prescription)
                                            (prescriptions s1) of
                                       None \<Rightarrow> s1
                                     | Some pt' \<Rightarrow> s1\<lparr>prescriptions := pt'\<rparr>))
                               | Some it \<Rightarrow>
                                  let s2 = s1\<lparr>prescription_items := it\<rparr> in
                                  (Inr (Reply 201 ''Prescription created successfully''
                                          (select_complete e s2 (p_id prescription))),
                                   s2))))))))"

subsection \<open>Authentication (controllers/authController.ts)\<close>

record register_body =
  rg_email :: string
  rg_password :: string
  rg_phone :: "string option"
  rg_role :: "UserRole option"
  rg_firstName :: string
  rg_lastName :: string
  rg_dateOfBirth :: "string option"
  rg_gender :: "string option"

text \<open>\<^verbatim>\<open>registerSchema\<close>; the role is one of \<^verbatim>\<open>user\<close> and \<^verbatim>\<open>doctor\<close>.\<close>

definition registerSchema :: "env \<Rightarrow> register_body \<Rightarrow> bool" where
  "registerSchema e b =
     (email_ok e (rg_email b) \<and> length (rg_password b) \<ge> 8 \<and>
      rg_role b \<noteq> Some RoleAdmin \<and>
      length (rg_firstName b) \<ge> 1 \<and> length (rg_lastName b) \<ge> 1)"

text \<open>\<^verbatim>\<open>.default('user')\<close>\<close>

definition role_or_default :: "UserRole option \<Rightarrow> UserRole" where
  "role_or_default r = (case r of None \<Rightarrow> RoleUser | Some x \<Rightarrow> x)"

record auth_data =
  ad_id :: uuid
  ad_email :: string
  ad_role :: UserRole
  ad_token :: string

text \<open>\<^verbatim>\<open>generateToken\<close>\<close>

definition generateToken :: "env \<Rightarrow> uuid \<Rightarrow> string \<Rightarrow> UserRole \<Rightarrow> string" where
  "generateToken e userId email role = jwt_sign e userId email role"

text \<open>
  The row that \<^verbatim>\<open>register\<close> inserts, with the id the store gives it; the columns the
  insert does not name take their defaults.
\<close>

definition new_user :: "env \<Rightarrow> register_body \<Rightarrow> string \<Rightarrow> user_row" where
  "new_user e b passwordHash =
     \<lparr>u_id = newId e, u_email = rg_email b, u_phone = rg_phone b,
      u_password_hash = passwordHash, u_role = role_or_default (rg_role b),
      u_is_active = default_is_active e, u_last_login = None\<rparr>"

definition register ::
  "env \<Rightarrow> db \<Rightarrow> register_body \<Rightarrow> (failure + auth_data reply) \<times> db" where
  "register e s b =
     (if \<not> registerSchema e b then (Inl ZodError, s)
      else case select_single (fails e SelectUser) (\<lambda>u. u_email u = rg_email b) (users s) of
        Some existingUser \<Rightarrow> (Inl (AppError ''User with this email already exists'' 409), s)
      | None \<Rightarrow>
         let passwordHash = bcrypt_hash e (rg_password b) in
         (case insert_single (fails e InsertUser) u_id (new_user e b passwordHash) (users s) of
            None \<Rightarrow>
              (Inl (AppError (if error_message e = [] then ''Failed to create user''
                              else error_message e) 500),
               s\<lparr>console := console s @ [(''SUPABASE USER ERROR:'', error_message e)]\<rparr>)
          | Some (user, ut) \<Rightarrow>
             let s1 = s\<lparr>users := ut\<rparr> in
             (case insert_rows (fails e InsertProfile)
                     [\<lparr>pr_user_id = u_id user, pr_first_name = rg_firstName b,
                       pr_last_name = rg_lastName b,
                       pr_date_of_birth = or_null (rg_dateOfBirth b),
                       pr_gender = or_null (rg_gender b)\<rparr>] (profiles s1) of
                None \<Rightarrow>
                  (Inl (AppError ''Failed to create user profile'' 500),
                   (case delete_rows (fails e DeleteUser) (\<lambda>r. u_id r = u_id user) (users s1) of
                      None \<Rightarrow> s1
                    | Some ut' \<Rightarrow> s1\<lparr>users := ut'\<rparr>))
              | Some pt \<Rightarrow>
                  (Inr (Reply 201 ''User registered successfully''
                          \<lparr>ad_id = u_id user, ad_email = u_email user, ad_role = u_role user,
                           ad_token = generateToken e (u_id user) (u_email user) (u_role user)\<rparr>),
                   s1\<lparr>profiles := pt\<rparr>))))"

record login_body =
  lg_email :: string
  lg_password :: string

definition loginSchema :: "env \<Rightarrow> login_body \<Rightarrow> bool" where
  "loginSchema e b = (email_ok e (lg_email b) \<and> length (lg_password b) \<ge> 1)"

definition login ::
  "env \<Rightarrow> db \<Rightarrow> login_body \<Rightarrow> (failure + auth_data reply) \<times> db" where
  "login e s b =
     (if \<not> loginSchema e b then (Inl ZodError, s)
      else case select_single (fails e SelectUser) (\<lambda>u. u_email u = lg_email b) (users s) of
        None \<Rightarrow> (Inl (AppError ''Invalid email or password'' 401), s)
      | Some user \<Rightarrow>
         if \<not> u_is_active user
         then (Inl (AppError ''Account is deactivated'' 403), s)
         else if \<not> bcrypt_compare e (lg_password b) (u_password_hash user)
         then (Inl (AppError ''Invalid email or password'' 401), s)
         else
          (Inr (Reply 200 ''Login successful''
                  \<lparr>ad_id = u_id user, ad_email = u_email user, ad_role = u_role user,
                   ad_token = generateToken e (u_id user) (u_email user) (u_role user)\<rparr>),
           (case update_rows (fails e UpdateLastLogin) (\<lambda>r. u_id r = u_id user)
                   (\<lambda>r. r\<lparr>u_last_login := Some (nowISO e)\<rparr>) (users s) of
              None \<Rightarrow> s
            | Some ut \<Rightarrow> s\<lparr>users := ut\<rparr>)))"

subsection \<open>A sample environment and sample rows\<close>

text \<open>
  A reading of date and time columns for the sample: months 01 to 12 with their days
  (February with 29), hours up to 23, minutes and seconds up to 59.
\<close>

definition calendar_date :: "string \<Rightarrow> bool" where
  "calendar_date d =
     (let mm = take 2 (drop 5 d); dd = drop 8 d in
      date_format d \<and> ''01'' \<le> mm \<and> mm \<le> ''12'' \<and> ''01'' \<le> dd \<and>
      dd \<le> (if mm \<in> {''04'', ''06'', ''09'', ''11''} then ''30''
              else if mm = ''02'' then ''29'' else ''31''))"

definition clock_time :: "string \<Rightarrow> bool" where
  "clock_time t =
     (time_format t \<and> take 2 t \<le> ''23'' \<and> take 2 (drop 3 t) \<le> ''59'' \<and> drop 6 t \<le> ''59'')"

text \<open>An environment in which no call of the store fails.\<close>

definition calm :: env where
  "calm = \<lparr>fails = (\<lambda>c. False), newId = ''n1'', now = 1000,
            nowISO = ''2025-02-01T08:00:00.000Z'', parseDate = (\<lambda>t. Some 2000),
            date_ok = calendar_date, time_ok = clock_time,
            uuid_ok = (\<lambda>t. t \<noteq> []), url_ok = (\<lambda>t. t \<noteq> []), email_ok = (\<lambda>t. CHR ''@'' \<in> set t),
            bcrypt_hash = (\<lambda>p. ''#'' @ p), bcrypt_compare = (\<lambda>p h. h = ''#'' @ p),
            jwt_sign = (\<lambda>i m r. ''jwt:'' @ i), default_is_active = True,
            error_message = ''store error''\<rparr>"

text \<open>Doctor X with the user account of X, a patient P and an admin A.\<close>

definition doctorX :: doctor_row where
  "doctorX = \<lparr>d_id = ''dX'', d_user_id = ''uX'', d_consultation_fee = 500\<rparr>"

definition userX :: auth_user where
  "userX = \<lparr>au_id = ''uX'', au_email = ''x@example.org'', au_role = RoleDoctor\<rparr>"

definition patientP :: auth_user where
  "patientP = \<lparr>au_id = ''uP'', au_email = ''p@example.org'', au_role = RoleUser\<rparr>"

definition adminA :: auth_user where
  "adminA = \<lparr>au_id = ''uA'', au_email = ''a@example.org'', au_role = RoleAdmin\<rparr>"

text \<open>The slot 09:00--09:30 of X on 2025-03-01, and a store that holds X and this slot.\<close>

definition slot0900 :: slot_row where
  "slot0900 = \<lparr>sl_id = ''s1'', sl_doctor_id = ''dX'', sl_slot_date = ''2025-03-01'',
               sl_start_time = ''09:00:00'', sl_end_time = ''09:30:00'',
               sl_status = Available, sl_created_by = Some ''uX''\<rparr>"

definition db0 :: db where
  "db0 = \<lparr>users = [], profiles = [], doctors = [doctorX], slots = [slot0900],
          consultations = [], payments = [], prescriptions = [], prescription_items = [],
          medicines = [], console = []\<rparr>"

text \<open>The request to book that slot with X.\<close>

definition bookReq :: bookConsultation_body where
  "bookReq = \<lparr>bc_doctorId = ''dX'', bc_slotId = ''s1'', bc_chiefComplaint = ''cough''\<rparr>"

text \<open>An environment in which exactly the call \<open>c\<close> fails, and one in which \<open>c\<close> and \<open>d\<close> do.\<close>

definition failing :: "call \<Rightarrow> env" where
  "failing c = calm\<lparr>fails := (\<lambda>x. x = c)\<rparr>"

definition failing2 :: "call \<Rightarrow> call \<Rightarrow> env" where
  "failing2 c d = calm\<lparr>fails := (\<lambda>x. x = c \<or> x = d)\<rparr>"

text \<open>
  A completed consultation of P with X on that slot, the store that holds it with the
  slot booked, and the payload \<^verbatim>\<open>{status: 'cancelled'}\<close> of \<^verbatim>\<open>updateConsultation\<close>.
\<close>

definition consDone :: consultation_row where
  "consDone = \<lparr>c_id = ''c1'', c_patient_id = ''uP'', c_doctor_id = ''dX'', c_slot_id = Some ''s1'',
               c_consultation_date = ''2025-03-01'', c_start_time = ''09:00:00'',
               c_end_time = ''09:30:00'', c_status = Completed,
               c_chief_complaint = Some ''cough'', c_diagnosis = None, c_notes = None,
               c_meeting_link = None\<rparr>"

definition dbDone :: db where
  "dbDone = db0\<lparr>slots := [slot0900\<lparr>sl_status := Booked\<rparr>], consultations := [consDone]\<rparr>"

definition cancelBody :: updateConsultation_body where
  "cancelBody = \<lparr>uc_status = Some Cancelled, uc_diagnosis = None, uc_notes = None,
                 uc_meetingLink = None\<rparr>"

text \<open>
  The same consultation while it is scheduled, its store, and the payload
  \<^verbatim>\<open>{status: ..}\<close> of \<^verbatim>\<open>updateSlot\<close>.
\<close>

definition consBooked :: consultation_row where
  "consBooked = consDone\<lparr>c_status := Scheduled\<rparr>"

definition dbBooked :: db where
  "dbBooked = db0\<lparr>slots := [slot0900\<lparr>sl_status := Booked\<rparr>], consultations := [consBooked]\<rparr>"

definition statusBody :: "AvailabilityStatus \<Rightarrow> updateSlot_body" where
  "statusBody st = \<lparr>us_slotDate = None, us_startTime = None, us_endTime = None,
                    us_status = Some st\<rparr>"

text \<open>The payload \<^verbatim>\<open>{startTime: '10:00:00', endTime: '10:30:00'}\<close> of \<^verbatim>\<open>updateSlot\<close>.\<close>

definition timesBody :: updateSlot_body where
  "timesBody = \<lparr>us_slotDate = None, us_startTime = Some ''10:00:00'',
                us_endTime = Some ''10:30:00'', us_status = None\<rparr>"

text \<open>An active and a deactivated account, and a registration with the email of the first.\<close>

definition userActive :: user_row where
  "userActive = \<lparr>u_id = ''u1'', u_email = ''ann@example.org'', u_phone = None,
                 u_password_hash = ''#secret12'', u_role = RoleUser, u_is_active = True,
                 u_last_login = None\<rparr>"

definition userOff :: user_row where
  "userOff = \<lparr>u_id = ''u2'', u_email = ''bob@example.org'', u_phone = None,
              u_password_hash = ''#secret34'', u_role = RoleUser, u_is_active = False,
              u_last_login = None\<rparr>"

definition dbUsers :: db where
  "dbUsers = db0\<lparr>users := [userActive, userOff]\<rparr>"

definition regBody :: register_body where
  "regBody = \<lparr>rg_email = ''ann@example.org'', rg_password = ''secret12'', rg_phone = None,
              rg_role = None, rg_firstName = ''Ann'', rg_lastName = ''Lee'',
              rg_dateOfBirth = None, rg_gender = None\<rparr>"

text \<open>
  Three medicines, the first in stock, a store with them and the completed consultation,
  prescription requests for that consultation, and an earlier prescription of it.
\<close>

definition medA :: medicine_row where
  "medA = \<lparr>m_id = ''m1'', m_name = ''Aspirin'', m_in_stock = True\<rparr>"

definition medB :: medicine_row where
  "medB = \<lparr>m_id = ''m2'', m_name = ''Ibuprofen'', m_in_stock = False\<rparr>"

definition medC :: medicine_row where
  "medC = \<lparr>m_id = ''m3'', m_name = ''Codeine'', m_in_stock = False\<rparr>"

definition dbRx :: db where
  "dbRx = db0\<lparr>consultations := [consDone], medicines := [medA, medB, medC]\<rparr>"

definition item :: "uuid \<Rightarrow> item_body" where
  "item m = \<lparr>it_medicineId = m, it_dosage = ''1 tablet'', it_frequency = ''daily'',
             it_durationDays = 5, it_instructions = None\<rparr>"

definition rxBody :: "uuid list \<Rightarrow> createPrescription_body" where
  "rxBody ms = \<lparr>cp_consultationId = ''c1'', cp_notes = None, cp_items = map item ms\<rparr>"



section \<open>Properties\<close>

subsection \<open>Facts about the calls of the store\<close>

lemma single_eq_Some: "single xs = Some x \<longleftrightarrow> xs = [x]"
  by (cases xs rule: single.cases) auto

lemma filter_singleton_unique:
  assumes "filter P t = [r]" and "y \<in> set t" and "P y"
  shows "y = r"
proof -
  have "y \<in> set (filter P t)" using assms(2,3) by simp
  then show ?thesis using assms(1) by simp
qed

lemma filter_key_absent:
  assumes "k \<notin> set (map key t)"
  shows "filter (\<lambda>x. key x = k) t = []"
proof -
  have "\<forall>x \<in> set t. key x \<noteq> k" using assms by (metis image_eqI list.set_map)
  then show ?thesis by (simp add: filter_empty_conv)
qed

lemma filter_key_fresh:
  assumes "key r \<notin> set (map key t)"
  shows "filter (\<lambda>x. key x = key r) (t @ [r]) = [r]"
    and "filter (\<lambda>x. key x \<noteq> key r) (t @ [r]) = t"
proof -
  have "\<forall>x \<in> set t. key x \<noteq> key r" using assms by (metis image_eqI list.set_map)
  then have "filter (\<lambda>x. key x = key r) t = []" and "filter (\<lambda>x. key x \<noteq> key r) t = t"
    by (simp_all add: filter_empty_conv filter_id_conv)
  then show "filter (\<lambda>x. key x = key r) (t @ [r]) = [r]"
    and "filter (\<lambda>x. key x \<noteq> key r) (t @ [r]) = t" by simp_all
qed

lemma map_key_fresh:
  assumes "key r \<notin> set (map key t)"
  shows "map (\<lambda>x. if key x = key r then f x else x) (t @ [r]) = t @ [f r]"
proof -
  have "\<forall>x \<in> set t. key x \<noteq> key r" using assms by (metis image_eqI list.set_map)
  then have "map (\<lambda>x. if key x = key r then f x else x) t = t"
    by (simp add: map_idI)
  then show ?thesis by simp
qed

text \<open>Booking and then freeing the one slot with a given id, available before, restores the table.\<close>

lemma map_book_free:
  assumes "filter (\<lambda>r. sl_id r = sid) t = [slot]" and "sl_status slot = Available"
  shows "map (\<lambda>r. if sl_id r = sid then r\<lparr>sl_status := Available\<rparr> else r)
           (map (\<lambda>r. if sl_id r = sid then r\<lparr>sl_status := Booked\<rparr> else r) t) = t"
proof -
  have "\<forall>r \<in> set t. sl_id r = sid \<longrightarrow> sl_status r = Available"
    using filter_singleton_unique [OF assms(1)] assms(2) by blast
  then have "\<forall>r \<in> set t.
      (\<lambda>r. if sl_id r = sid then r\<lparr>sl_status := Available\<rparr> else r)
        ((\<lambda>r. if sl_id r = sid then r\<lparr>sl_status := Booked\<rparr> else r) r) = r"
    by simp
  then show ?thesis by (simp add: map_idI)
qed

subsection \<open>Creating slots\<close>

text \<open>
  A slot that overlaps an existing slot of the doctor on the date, the intervals read
  half-open, is refused with 409, once the doctor is resolved and the overlap query
  comes back (the store takes the date and the times for values of its columns).
\<close>

lemma createSlot_overlap_conflict:
  assumes "createSlotSchema b"
    and "select_single (fails e SelectDoctor) (\<lambda>d. d_user_id d = au_id u) (doctors s) = Some doctor"
    and "\<not> fails e SelectOverlap \<and> store_reads e b"
    and "x \<in> set (slots s)"
    and "sl_doctor_id x = d_id doctor" and "sl_slot_date x = cs_slotDate b"
    and "sl_start_time x < cs_endTime b" and "cs_startTime b < sl_end_time x"
  shows "createSlot e s (Some u) b =
           (Inl (AppError ''This time slot overlaps with an existing slot'' 409), s)"
proof -
  have "overlap_filter (d_id doctor) b x"
    using assms(5-8) by (simp add: overlap_filter_def less_imp_le)
  then have "x \<in> set (filter (overlap_filter (d_id doctor) b) (slots s))"
    using assms(4) by simp
  then obtain y ys where "filter (overlap_filter (d_id doctor) b) (slots s) = y # ys"
    by (cases "filter (overlap_filter (d_id doctor) b) (slots s)") auto
  then show ?thesis
    using assms(1-3) by (simp add: createSlot_def select_rows_def)
qed

text \<open>
  C1. The intervals are not half-open for \<^verbatim>\<open>createSlot\<close>: the filter compares with
  \<^verbatim>\<open>lte\<close> and \<^verbatim>\<open>gte\<close>, so a slot that only touches an existing one is refused too.
  With the slot 09:00--09:30 of doctor X on 2025-03-01 in the store, creating
  09:30--10:00 and creating 08:30--09:00 for X on that date both fail with 409 and
  insert nothing.
\<close>

theorem createSlot_adjacent_refused:
  "createSlot calm db0 (Some userX)
     \<lparr>cs_slotDate = ''2025-03-01'', cs_startTime = ''09:30:00'', cs_endTime = ''10:00:00''\<rparr>
     = (Inl (AppError ''This time slot overlaps with an existing slot'' 409), db0)
   \<and> createSlot calm db0 (Some userX)
     \<lparr>cs_slotDate = ''2025-03-01'', cs_startTime = ''08:30:00'', cs_endTime = ''09:00:00''\<rparr>
     = (Inl (AppError ''This time slot overlaps with an existing slot'' 409), db0)"
  by (simp add: createSlot_def createSlotSchema_def digit_def select_single_def select_rows_def
      overlap_filter_def store_reads_def calendar_date_def clock_time_def calm_def db0_def
      doctorX_def slot0900_def userX_def)

subsection \<open>Booking and cancelling consultations\<close>

text \<open>
  C3. For a validated request of an authenticated user, \<^verbatim>\<open>bookConsultation\<close> answers
  404 when no slot has the requested id; with the slot loaded, it answers 400 (slot not
  available) when the status is not \<^verbatim>\<open>available\<close>; else 400 (wrong doctor) when the
  slot's doctor is not the requested one; else 400 (slot in the past) when the start
  lies before the clock; each of these leaves the store as it was. With all guards
  passed, and the two writes accepted by the store, the store holds one more
  consultation, \<^verbatim>\<open>scheduled\<close>, and the slot is \<^verbatim>\<open>booked\<close>. Whatever the request, the
  store is changed only if all the guards pass.
\<close>

theorem bookConsultation_guard_order:
  assumes "bookConsultationSchema e b"
  shows "(bc_slotId b \<notin> set (map sl_id (slots s)) \<longrightarrow>
            bookConsultation e s (Some u) b = (Inl (AppError ''Slot not found'' 404), s))
       \<and> (select_single (fails e SelectSlot) (\<lambda>r. sl_id r = bc_slotId b) (slots s) = Some slot \<longrightarrow>
            (sl_status slot \<noteq> Available \<longrightarrow>
               bookConsultation e s (Some u) b =
                 (Inl (AppError ''This slot is not available for booking'' 400), s))
          \<and> (sl_status slot = Available \<and> sl_doctor_id slot \<noteq> bc_doctorId b \<longrightarrow>
               bookConsultation e s (Some u) b =
                 (Inl (AppError ''Slot does not belong to the specified doctor'' 400), s))
          \<and> (sl_status slot = Available \<and> sl_doctor_id slot = bc_doctorId b \<and> in_the_past e slot \<longrightarrow>
               bookConsultation e s (Some u) b =
                 (Inl (AppError ''Cannot book a slot in the past'' 400), s))
          \<and> (sl_status slot = Available \<and> sl_doctor_id slot = bc_doctorId b \<and> \<not> in_the_past e slot \<and>
              \<not> fails e InsertConsultation \<and> newId e \<notin> set (map c_id (consultations s)) \<and>
              \<not> fails e BookSlot \<longrightarrow>
               consultations (snd (bookConsultation e s (Some u) b))
                 = consultations s @ [new_consultation e u b slot]
             \<and> c_status (new_consultation e u b slot) = Scheduled
             \<and> slots (snd (bookConsultation e s (Some u) b))
                 = map (\<lambda>r. if sl_id r = bc_slotId b then r\<lparr>sl_status := Booked\<rparr> else r) (slots s)))
       \<and> (snd (bookConsultation e s user b) \<noteq> s \<longrightarrow>
            (\<exists>slot. select_single (fails e SelectSlot) (\<lambda>r. sl_id r = bc_slotId b) (slots s) = Some slot
                 \<and> sl_status slot = Available \<and> sl_doctor_id slot = bc_doctorId b
                 \<and> \<not> in_the_past e slot))"
proof (intro conjI impI)
  assume "bc_slotId b \<notin> set (map sl_id (slots s))"
  then have "filter (\<lambda>r. sl_id r = bc_slotId b) (slots s) = []"
    by (rule filter_key_absent)
  then show "bookConsultation e s (Some u) b = (Inl (AppError ''Slot not found'' 404), s)"
    using assms by (simp add: bookConsultation_def select_single_def)
next
  assume "select_single (fails e SelectSlot) (\<lambda>r. sl_id r = bc_slotId b) (slots s) = Some slot"
    and "sl_status slot \<noteq> Available"
  then show "bookConsultation e s (Some u) b =
               (Inl (AppError ''This slot is not available for booking'' 400), s)"
    using assms by (simp add: bookConsultation_def)
next
  assume "select_single (fails e SelectSlot) (\<lambda>r. sl_id r = bc_slotId b) (slots s) = Some slot"
    and "sl_status slot = Available \<and> sl_doctor_id slot \<noteq> bc_doctorId b"
  then show "bookConsultation e s (Some u) b =
               (Inl (AppError ''Slot does not belong to the specified doctor'' 400), s)"
    using assms by (simp add: bookConsultation_def)
next
  assume "select_single (fails e SelectSlot) (\<lambda>r. sl_id r = bc_slotId b) (slots s) = Some slot"
    and "sl_status slot = Available \<and> sl_doctor_id slot = bc_doctorId b \<and> in_the_past e slot"
  then show "bookConsultation e s (Some u) b =
               (Inl (AppError ''Cannot book a slot in the past'' 400), s)"
    using assms by (simp add: bookConsultation_def)
next
  assume sel: "select_single (fails e SelectSlot) (\<lambda>r. sl_id r = bc_slotId b) (slots s) = Some slot"
    and ok: "sl_status slot = Available \<and> sl_doctor_id slot = bc_doctorId b \<and> \<not> in_the_past e slot \<and>
              \<not> fails e InsertConsultation \<and> newId e \<notin> set (map c_id (consultations s)) \<and>
              \<not> fails e BookSlot"
  let ?c = "new_consultation e u b slot"
  have ins: "insert_single (fails e InsertConsultation) c_id ?c (consultations s)
              = Some (?c, consultations s @ [?c])"
    using ok by (simp add: insert_single_def new_consultation_def)
  show "consultations (snd (bookConsultation e s (Some u) b)) = consultations s @ [?c]"
    using assms sel ok ins
    by (simp add: bookConsultation_def Let_def update_rows_def insert_rows_def
        split: option.split)
  show "c_status ?c = Scheduled" by (simp add: new_consultation_def)
  show "slots (snd (bookConsultation e s (Some u) b))
          = map (\<lambda>r. if sl_id r = bc_slotId b then r\<lparr>sl_status := Booked\<rparr> else r) (slots s)"
    using assms sel ok ins
    by (simp add: bookConsultation_def Let_def update_rows_def insert_rows_def
        split: option.split)
next
  assume "snd (bookConsultation e s user b) \<noteq> s"
  then show "\<exists>slot. select_single (fails e SelectSlot) (\<lambda>r. sl_id r = bc_slotId b) (slots s) = Some slot
                 \<and> sl_status slot = Available \<and> sl_doctor_id slot = bc_doctorId b
                 \<and> \<not> in_the_past e slot"
    by (auto simp add: bookConsultation_def split: if_splits option.splits)
qed

theorem bookConsultation_guard_order_witness:
  "bookConsultation calm db0 (Some patientP) (bookReq\<lparr>bc_slotId := ''s9''\<rparr>)
     = (Inl (AppError ''Slot not found'' 404), db0)
   \<and> bookConsultation calm (db0\<lparr>slots := [slot0900\<lparr>sl_status := Booked\<rparr>]\<rparr>) (Some patientP) bookReq
     = (Inl (AppError ''This slot is not available for booking'' 400),
        db0\<lparr>slots := [slot0900\<lparr>sl_status := Booked\<rparr>]\<rparr>)
   \<and> bookConsultation calm db0 (Some patientP) (bookReq\<lparr>bc_doctorId := ''dY''\<rparr>)
     = (Inl (AppError ''Slot does not belong to the specified doctor'' 400), db0)
   \<and> bookConsultation (calm\<lparr>now := 3000\<rparr>) db0 (Some patientP) bookReq
     = (Inl (AppError ''Cannot book a slot in the past'' 400), db0)
   \<and> consultations (snd (bookConsultation calm db0 (Some patientP) bookReq))
     = [new_consultation calm patientP bookReq slot0900]
   \<and> slots (snd (bookConsultation calm db0 (Some patientP) bookReq))
     = [slot0900\<lparr>sl_status := Booked\<rparr>]"
proof -
  have a: "bookConsultation calm db0 (Some patientP) (bookReq\<lparr>bc_slotId := ''s9''\<rparr>)
     = (Inl (AppError ''Slot not found'' 404), db0)"
    using bookConsultation_guard_order
      [of calm "bookReq\<lparr>bc_slotId := ''s9''\<rparr>" db0 patientP slot0900 "Some patientP"]
    by (simp add: calm_def bookReq_def db0_def slot0900_def bookConsultationSchema_def)
  have b: "bookConsultation calm (db0\<lparr>slots := [slot0900\<lparr>sl_status := Booked\<rparr>]\<rparr>) (Some patientP) bookReq
     = (Inl (AppError ''This slot is not available for booking'' 400),
        db0\<lparr>slots := [slot0900\<lparr>sl_status := Booked\<rparr>]\<rparr>)"
    using bookConsultation_guard_order
      [of calm bookReq "db0\<lparr>slots := [slot0900\<lparr>sl_status := Booked\<rparr>]\<rparr>" patientP
          "slot0900\<lparr>sl_status := Booked\<rparr>" "Some patientP"]
    by (simp add: calm_def bookReq_def db0_def slot0900_def bookConsultationSchema_def
        select_single_def)
  have c: "bookConsultation calm db0 (Some patientP) (bookReq\<lparr>bc_doctorId := ''dY''\<rparr>)
     = (Inl (AppError ''Slot does not belong to the specified doctor'' 400), db0)"
    using bookConsultation_guard_order
      [of calm "bookReq\<lparr>bc_doctorId := ''dY''\<rparr>" db0 patientP slot0900 "Some patientP"]
    by (simp add: calm_def bookReq_def db0_def slot0900_def bookConsultationSchema_def
        select_single_def)
  have d: "bookConsultation (calm\<lparr>now := 3000\<rparr>) db0 (Some patientP) bookReq
     = (Inl (AppError ''Cannot book a slot in the past'' 400), db0)"
    using bookConsultation_guard_order
      [of "calm\<lparr>now := 3000\<rparr>" bookReq db0 patientP slot0900 "Some patientP"]
    by (simp add: calm_def bookReq_def db0_def slot0900_def bookConsultationSchema_def
        select_single_def in_the_past_def)
  have e: "consultations (snd (bookConsultation calm db0 (Some patientP) bookReq))
     = [new_consultation calm patientP bookReq slot0900]
   \<and> slots (snd (bookConsultation calm db0 (Some patientP) bookReq))
     = [slot0900\<lparr>sl_status := Booked\<rparr>]"
    using bookConsultation_guard_order
      [of calm bookReq db0 patientP slot0900 "Some patientP"]
    by (simp add: calm_def bookReq_def db0_def slot0900_def bookConsultationSchema_def
        select_single_def in_the_past_def)
  from a b c d e show ?thesis by simp
qed

text \<open>
  C4. With the guards passed and the consultation inserted (the insert comes before the
  update of the slot). If the update of the slot fails, the answer is the error 500 and
  the consultation just inserted is deleted again: with the delete accepted by the
  store, the state is as before the request; were the delete refused too, the inserted
  consultation would stay, so it is this delete that removes it. If the update goes
  through and only the insert of the payment fails, the failure is written to the
  console, the answer is still 201 with the consultation, and the store holds the
  consultation and the booked slot but no payment.
\<close>

theorem bookConsultation_compensation:
  assumes "bookConsultationSchema e b"
    and "select_single (fails e SelectSlot) (\<lambda>r. sl_id r = bc_slotId b) (slots s) = Some slot"
    and "sl_status slot = Available" and "sl_doctor_id slot = bc_doctorId b"
    and "\<not> in_the_past e slot"
    and "\<not> fails e InsertConsultation" and "newId e \<notin> set (map c_id (consultations s))"
  shows "(fails e BookSlot \<and> \<not> fails e DeleteConsultation \<longrightarrow>
            bookConsultation e s (Some u) b = (Inl (AppError ''Failed to book slot'' 500), s))
       \<and> (fails e BookSlot \<and> fails e DeleteConsultation \<longrightarrow>
            bookConsultation e s (Some u) b =
              (Inl (AppError ''Failed to book slot'' 500),
               s\<lparr>consultations := consultations s @ [new_consultation e u b slot]\<rparr>))
       \<and> (\<not> fails e BookSlot \<and> fails e InsertPayment \<and> embed_doctor s (sl_doctor_id slot) \<noteq> None \<longrightarrow>
            bookConsultation e s (Some u) b =
              (Inr (Reply 201 ''Consultation booked successfully'' (new_consultation e u b slot)),
               s\<lparr>consultations := consultations s @ [new_consultation e u b slot],
                 slots := map (\<lambda>r. if sl_id r = bc_slotId b then r\<lparr>sl_status := Booked\<rparr> else r) (slots s),
                 console := console s @
                   [(''Failed to create payment record:'', error_message e)]\<rparr>))"
proof -
  let ?c = "new_consultation e u b slot"
  have key: "c_id ?c = newId e" by (simp add: new_consultation_def)
  have ins: "insert_single (fails e InsertConsultation) c_id ?c (consultations s)
              = Some (?c, consultations s @ [?c])"
    using assms(6,7) by (simp add: insert_single_def key)
  have fresh: "c_id ?c \<notin> set (map c_id (consultations s))" using assms(7) key by simp
  have del: "filter (\<lambda>x. c_id x \<noteq> c_id ?c) (consultations s @ [?c]) = consultations s"
    by (rule filter_key_fresh(2) [OF fresh])
  show ?thesis
    using assms(1-5) ins del
    by (auto simp add: bookConsultation_def Let_def update_rows_def delete_rows_def insert_rows_def)
qed

theorem bookConsultation_compensation_witness:
  "bookConsultation (failing BookSlot) db0 (Some patientP) bookReq
     = (Inl (AppError ''Failed to book slot'' 500), db0)
   \<and> bookConsultation (failing2 BookSlot DeleteConsultation) db0 (Some patientP) bookReq
     = (Inl (AppError ''Failed to book slot'' 500),
        db0\<lparr>consultations :=
              [new_consultation (failing2 BookSlot DeleteConsultation) patientP bookReq slot0900]\<rparr>)
   \<and> bookConsultation (failing InsertPayment) db0 (Some patientP) bookReq
     = (Inr (Reply 201 ''Consultation booked successfully''
               (new_consultation (failing InsertPayment) patientP bookReq slot0900)),
        db0\<lparr>consultations := [new_consultation (failing InsertPayment) patientP bookReq slot0900],
            slots := [slot0900\<lparr>sl_status := Booked\<rparr>],
            console := [(''Failed to create payment record:'', ''store error'')]\<rparr>)"
  using bookConsultation_compensation [of "failing BookSlot" bookReq db0 slot0900 patientP]
    bookConsultation_compensation
      [of "failing2 BookSlot DeleteConsultation" bookReq db0 slot0900 patientP]
    bookConsultation_compensation [of "failing InsertPayment" bookReq db0 slot0900 patientP]
  by (simp add: failing_def failing2_def calm_def bookReq_def db0_def slot0900_def doctorX_def
      patientP_def bookConsultationSchema_def select_single_def in_the_past_def
      embed_doctor_def)

text \<open>
  C2. Booking a slot that is \<^verbatim>\<open>available\<close> (guards passed, writes accepted) answers 201,
  turns the slot to \<^verbatim>\<open>booked\<close> and adds exactly one consultation, \<^verbatim>\<open>scheduled\<close>, that
  refers to the slot. Cancelling that consultation afterwards (by its patient, a doctor
  or an admin; writes accepted) answers 200, leaves the consultation \<^verbatim>\<open>cancelled\<close> and
  the table of slots exactly as it was before the booking: the slot is \<^verbatim>\<open>available\<close>
  again.
\<close>

theorem book_then_cancel_round_trip:
  assumes schema: "bookConsultationSchema e b" and sid: "bc_slotId b \<noteq> []"
    and sel: "select_single (fails e SelectSlot) (\<lambda>r. sl_id r = bc_slotId b) (slots s) = Some slot"
    and avail: "sl_status slot = Available" and doc: "sl_doctor_id slot = bc_doctorId b"
    and future: "\<not> in_the_past e slot"
    and ins: "\<not> fails e InsertConsultation" "newId e \<notin> set (map c_id (consultations s))"
    and upd: "\<not> fails e BookSlot" and emb: "embed_doctor s (sl_doctor_id slot) \<noteq> None"
    and quiet: "\<not> fails e' SelectConsultation" "\<not> fails e' UpdateConsultation" "\<not> fails e' FreeSlot"
    and actor: "au_role v = RoleUser \<longrightarrow> au_id v = au_id u"
  shows "fst (bookConsultation e s (Some u) b)
           = Inr (Reply 201 ''Consultation booked successfully'' (new_consultation e u b slot))
       \<and> slots (snd (bookConsultation e s (Some u) b))
           = map (\<lambda>r. if sl_id r = bc_slotId b then r\<lparr>sl_status := Booked\<rparr> else r) (slots s)
       \<and> consultations (snd (bookConsultation e s (Some u) b))
           = consultations s @ [new_consultation e u b slot]
       \<and> c_status (new_consultation e u b slot) = Scheduled
       \<and> c_slot_id (new_consultation e u b slot) = Some (bc_slotId b)
       \<and> fst (cancelConsultation e' (snd (bookConsultation e s (Some u) b)) (Some v)
                 (c_id (new_consultation e u b slot)))
           = Inr (Reply 200 ''Consultation cancelled successfully'' ())
       \<and> consultations (snd (cancelConsultation e' (snd (bookConsultation e s (Some u) b)) (Some v)
                 (c_id (new_consultation e u b slot))))
           = consultations s @ [(new_consultation e u b slot)\<lparr>c_status := Cancelled\<rparr>]
       \<and> slots (snd (cancelConsultation e' (snd (bookConsultation e s (Some u) b)) (Some v)
                 (c_id (new_consultation e u b slot))))
           = slots s"
proof -
  let ?c = "new_consultation e u b slot"
  let ?book = "\<lambda>r. if sl_id r = bc_slotId b then r\<lparr>sl_status := Booked\<rparr> else r"
  define s1 where "s1 = snd (bookConsultation e s (Some u) b)"
  have key: "c_id ?c = newId e" by (simp add: new_consultation_def)
  have fresh: "c_id ?c \<notin> set (map c_id (consultations s))" using ins(2) key by simp
  have insc: "insert_single (fails e InsertConsultation) c_id ?c (consultations s)
              = Some (?c, consultations s @ [?c])"
    using ins by (simp add: insert_single_def key)
  obtain d where d: "embed_doctor s (sl_doctor_id slot) = Some d" using emb by auto
  have book: "bookConsultation e s (Some u) b =
      (Inr (Reply 201 ''Consultation booked successfully'' ?c),
       (case insert_rows (fails e InsertPayment)
               [\<lparr>pay_consultation_id = c_id ?c, pay_patient_id = au_id u,
                 pay_amount = d_consultation_fee d, pay_status = Pending\<rparr>] (payments s) of
          None \<Rightarrow> s\<lparr>consultations := consultations s @ [?c], slots := map ?book (slots s),
                    console := console s @
                      [(''Failed to create payment record:'', error_message e)]\<rparr>
        | Some pt \<Rightarrow> s\<lparr>consultations := consultations s @ [?c], slots := map ?book (slots s),
                       payments := pt\<rparr>))"
    using schema sel avail doc future insc upd d
    by (simp add: bookConsultation_def Let_def update_rows_def split: option.split)
  have s1_cons: "consultations s1 = consultations s @ [?c]"
    and s1_slots: "slots s1 = map ?book (slots s)"
    unfolding s1_def book by (simp_all split: option.split)
  have selc: "select_single (fails e' SelectConsultation) (\<lambda>c. c_id c = c_id ?c) (consultations s1)
               = Some ?c"
    using quiet(1) filter_key_fresh(1) [OF fresh] by (simp add: select_single_def s1_cons)
  have role: "\<not> (au_role v = RoleUser \<and> c_patient_id ?c \<noteq> au_id v)"
    using actor by (auto simp add: new_consultation_def)
  have st: "c_status ?c = Scheduled" and slot_id: "c_slot_id ?c = Some (bc_slotId b)"
    by (simp_all add: new_consultation_def)
  have cancel: "cancelConsultation e' s1 (Some v) (c_id ?c) =
      (Inr (Reply 200 ''Consultation cancelled successfully'' ()),
       free_slot e' (bc_slotId b)
         (s1\<lparr>consultations := map (\<lambda>c. if c_id c = c_id ?c then c\<lparr>c_status := Cancelled\<rparr> else c)
                                  (consultations s1)\<rparr>))"
    using selc role st slot_id sid quiet(2)
    by (simp add: cancelConsultation_def Let_def update_rows_def free_slot_if_def)
  have filt: "filter (\<lambda>r. sl_id r = bc_slotId b) (slots s) = [slot]"
    using sel by (simp add: select_single_def single_eq_Some split: if_splits)
  have restored: "map (\<lambda>r. if sl_id r = bc_slotId b then r\<lparr>sl_status := Available\<rparr> else r) (slots s1)
               = slots s"
    unfolding s1_slots by (rule map_book_free [OF filt avail])
  have c1: "fst (bookConsultation e s (Some u) b)
           = Inr (Reply 201 ''Consultation booked successfully'' ?c)"
    by (simp add: book)
  have c6: "fst (cancelConsultation e' s1 (Some v) (c_id ?c))
           = Inr (Reply 200 ''Consultation cancelled successfully'' ())"
    by (simp add: cancel)
  have c7: "consultations (snd (cancelConsultation e' s1 (Some v) (c_id ?c)))
           = consultations s @ [?c\<lparr>c_status := Cancelled\<rparr>]"
    using map_key_fresh [OF fresh, of "\<lambda>c. c\<lparr>c_status := Cancelled\<rparr>"] quiet(3)
    by (simp add: cancel free_slot_def update_rows_def s1_cons)
  have c8: "slots (snd (cancelConsultation e' s1 (Some v) (c_id ?c))) = slots s"
    using restored quiet(3) by (simp add: cancel free_slot_def update_rows_def)
  show ?thesis
    using c1 s1_slots s1_cons st slot_id c6 c7 c8 unfolding s1_def by simp
qed

theorem book_then_cancel_round_trip_witness:
  "fst (bookConsultation calm db0 (Some patientP) bookReq)
     = Inr (Reply 201 ''Consultation booked successfully''
              (new_consultation calm patientP bookReq slot0900))
   \<and> slots (snd (bookConsultation calm db0 (Some patientP) bookReq))
     = [slot0900\<lparr>sl_status := Booked\<rparr>]
   \<and> consultations (snd (bookConsultation calm db0 (Some patientP) bookReq))
     = [new_consultation calm patientP bookReq slot0900]
   \<and> fst (cancelConsultation calm (snd (bookConsultation calm db0 (Some patientP) bookReq))
             (Some patientP) ''n1'')
     = Inr (Reply 200 ''Consultation cancelled successfully'' ())
   \<and> consultations (snd (cancelConsultation calm
             (snd (bookConsultation calm db0 (Some patientP) bookReq)) (Some patientP) ''n1''))
     = [(new_consultation calm patientP bookReq slot0900)\<lparr>c_status := Cancelled\<rparr>]
   \<and> slots (snd (cancelConsultation calm
             (snd (bookConsultation calm db0 (Some patientP) bookReq)) (Some patientP) ''n1''))
     = [slot0900]"
  using book_then_cancel_round_trip
    [where e = calm and b = bookReq and s = db0 and slot = slot0900 and e' = calm
       and v = patientP and u = patientP]
  by (simp add: calm_def bookReq_def db0_def slot0900_def doctorX_def patientP_def
      bookConsultationSchema_def select_single_def in_the_past_def embed_doctor_def
      new_consultation_def)

subsection \<open>Terminal consultations\<close>

text \<open>
  \<^verbatim>\<open>cancelConsultation\<close> does not cancel twice: when the consultation it loads is
  \<^verbatim>\<open>completed\<close> or \<^verbatim>\<open>cancelled\<close>, the call fails and leaves the state (the
  consultation and its slot) as it was, whoever calls; for a caller who passes the
  ownership check the error is 400, \<^verbatim>\<open>Cannot cancel a <status> consultation\<close>.
\<close>

lemma cancelConsultation_terminal_rejected:
  assumes sel: "select_single (fails e SelectConsultation) (\<lambda>c. c_id c = cid) (consultations s) = Some c"
    and terminal: "c_status c = Completed \<or> c_status c = Cancelled"
  shows "snd (cancelConsultation e s user cid) = s
       \<and> (\<exists>m k. fst (cancelConsultation e s user cid) = Inl (AppError m k))
       \<and> ((au_role u = RoleUser \<longrightarrow> c_patient_id c = au_id u) \<longrightarrow>
            cancelConsultation e s (Some u) cid =
              (Inl (AppError (''Cannot cancel a '' @ status_text (c_status c) @ '' consultation'') 400), s))"
proof (intro conjI impI)
  show "snd (cancelConsultation e s user cid) = s"
    using sel terminal by (cases user) (auto simp add: cancelConsultation_def)
  show "\<exists>m k. fst (cancelConsultation e s user cid) = Inl (AppError m k)"
    using sel terminal by (cases user) (auto simp add: cancelConsultation_def)
next
  assume "au_role u = RoleUser \<longrightarrow> c_patient_id c = au_id u"
  then show "cancelConsultation e s (Some u) cid =
      (Inl (AppError (''Cannot cancel a '' @ status_text (c_status c) @ '' consultation'') 400), s)"
    using sel terminal by (auto simp add: cancelConsultation_def)
qed

lemma cancelConsultation_terminal_example:
  "cancelConsultation calm dbDone (Some patientP) ''c1''
     = (Inl (AppError ''Cannot cancel a completed consultation'' 400), dbDone)"
  using cancelConsultation_terminal_rejected
    [where e = calm and s = dbDone and cid = "''c1''" and c = consDone and u = patientP]
  by (simp add: calm_def dbDone_def db0_def consDone_def patientP_def select_single_def)

text \<open>
  \<^verbatim>\<open>updateConsultation\<close> does not repeat that guard: for an admin, or the doctor of the
  consultation, the payload \<^verbatim>\<open>{status: 'cancelled'}\<close> sets the status of the consultation
  it loads to \<^verbatim>\<open>cancelled\<close>, whatever the status was, and frees the slot.
\<close>

lemma updateConsultation_no_status_guard:
  assumes sel: "select_single (fails e SelectConsultation) (\<lambda>c. c_id c = cid) (consultations s) = Some c"
    and actor: "au_role u = RoleAdmin \<or>
                au_role u = RoleDoctor \<and>
                  map_option d_user_id (embed_doctor s (c_doctor_id c)) = Some (au_id u)"
    and upd: "\<not> fails e UpdateConsultation"
  shows "updateConsultation e s (Some u) cid cancelBody =
           (Inr (Reply 200 ''Consultation updated successfully'' (c\<lparr>c_status := Cancelled\<rparr>)),
            free_slot_if e (c_slot_id c)
              (s\<lparr>consultations :=
                   map (\<lambda>x. if c_id x = cid then x\<lparr>c_status := Cancelled\<rparr> else x)
                       (consultations s)\<rparr>))"
proof -
  have one: "single (filter (\<lambda>c. c_id c = cid) (consultations s)) = Some c"
    using sel by (simp add: select_single_def split: if_splits)
  have pay: "updateConsultation_payload cancelBody = (\<lambda>x. x\<lparr>c_status := Cancelled\<rparr>)"
    by (rule ext) (simp add: updateConsultation_payload_def cancelBody_def)
  have keys: "updateConsultation_keys cancelBody = [''status'']"
    by (simp add: updateConsultation_keys_def cancelBody_def)
  have written: "update_single
               (fails e UpdateConsultation \<or>
                \<not> payload_ok consultation_columns (updateConsultation_keys cancelBody))
               (\<lambda>c. c_id c = cid) (updateConsultation_payload cancelBody) (consultations s)
             = Some (c\<lparr>c_status := Cancelled\<rparr>,
                     map (\<lambda>x. if c_id x = cid then x\<lparr>c_status := Cancelled\<rparr> else x)
                         (consultations s))"
    using upd one
    by (simp add: update_single_def pay keys payload_ok_def consultation_columns_def)
  have role: "\<not> (au_role u = RoleDoctor \<and>
                map_option d_user_id (embed_doctor s (c_doctor_id c)) \<noteq> Some (au_id u))"
    using actor by auto
  show ?thesis
    using sel role written
    by (simp add: updateConsultation_def updateConsultationSchema_def Let_def cancelBody_def)
qed

text \<open>
  C5. No operation should move a consultation that is \<^verbatim>\<open>completed\<close> or \<^verbatim>\<open>cancelled\<close>
  to \<^verbatim>\<open>cancelled\<close>. \<^verbatim>\<open>updateConsultation\<close> does: here the doctor of a \<^verbatim>\<open>completed\<close>
  consultation sends \<^verbatim>\<open>{status: 'cancelled'}\<close>; the answer is 200, the consultation is
  \<^verbatim>\<open>cancelled\<close> and its slot, \<^verbatim>\<open>booked\<close> before, is \<^verbatim>\<open>available\<close>.
\<close>

theorem updateConsultation_cancels_completed:
  "c_status consDone = Completed
   \<and> updateConsultation calm dbDone (Some userX) ''c1'' cancelBody
     = (Inr (Reply 200 ''Consultation updated successfully'' (consDone\<lparr>c_status := Cancelled\<rparr>)),
        dbDone\<lparr>consultations := [consDone\<lparr>c_status := Cancelled\<rparr>], slots := [slot0900]\<rparr>)"
  by (simp add: updateConsultation_def updateConsultationSchema_def select_single_def
      embed_doctor_def update_single_def payload_ok_def consultation_columns_def
      updateConsultation_keys_def updateConsultation_payload_def free_slot_if_def free_slot_def
      update_rows_def calm_def dbDone_def db0_def consDone_def cancelBody_def userX_def
      doctorX_def slot0900_def)

subsection \<open>Updating slots\<close>

text \<open>
  \<^verbatim>\<open>updateSlot\<close> has no guard on the status of the slot: for every slot that is loaded,
  whatever its status, an admin or the doctor who owns it can set the status to any of
  \<^verbatim>\<open>available\<close>, \<^verbatim>\<open>booked\<close> and \<^verbatim>\<open>blocked\<close> with the payload \<^verbatim>\<open>{status: ..}\<close> (the
  store accepting the update), and no consultation is touched: a booked slot returns to
  \<^verbatim>\<open>available\<close> while the consultation that refers to it stays \<^verbatim>\<open>scheduled\<close>.
\<close>

lemma updateSlot_no_status_guard:
  assumes sel: "select_single (fails e SelectSlot) (\<lambda>r. sl_id r = slotId) (slots s) = Some slot"
    and actor: "au_role u = RoleAdmin \<or>
                au_role u = RoleDoctor \<and>
                  map_option d_user_id (embed_doctor s (sl_doctor_id slot)) = Some (au_id u)"
    and upd: "\<not> fails e UpdateSlot"
  shows "updateSlot e s (Some u) slotId (statusBody st) =
           (Inr (Reply 200 ''Slot updated successfully'' (slot\<lparr>sl_status := st\<rparr>)),
            s\<lparr>slots := map (\<lambda>r. if sl_id r = slotId then r\<lparr>sl_status := st\<rparr> else r) (slots s)\<rparr>)
       \<and> consultations (snd (updateSlot e s (Some u) slotId (statusBody st))) = consultations s"
proof -
  have one: "single (filter (\<lambda>r. sl_id r = slotId) (slots s)) = Some slot"
    using sel by (simp add: select_single_def split: if_splits)
  have pay: "updateSlot_payload (statusBody st) = (\<lambda>r. r\<lparr>sl_status := st\<rparr>)"
    by (rule ext) (simp add: updateSlot_payload_def statusBody_def)
  have keys: "updateSlot_keys (statusBody st) = [''status'']"
    by (simp add: updateSlot_keys_def statusBody_def)
  have written: "update_single
                 (fails e UpdateSlot \<or> \<not> payload_ok slot_columns (updateSlot_keys (statusBody st)))
                 (\<lambda>r. sl_id r = slotId) (updateSlot_payload (statusBody st)) (slots s)
               = Some (slot\<lparr>sl_status := st\<rparr>,
                       map (\<lambda>r. if sl_id r = slotId then r\<lparr>sl_status := st\<rparr> else r) (slots s))"
    using upd one by (simp add: update_single_def pay keys payload_ok_def slot_columns_def)
  have role: "\<not> (au_role u = RoleDoctor \<and>
                map_option d_user_id (embed_doctor s (sl_doctor_id slot)) \<noteq> Some (au_id u))"
    using actor by auto
  have schema: "updateSlotSchema (statusBody st)"
    by (simp add: updateSlotSchema_def statusBody_def)
  have res: "updateSlot e s (Some u) slotId (statusBody st) =
           (Inr (Reply 200 ''Slot updated successfully'' (slot\<lparr>sl_status := st\<rparr>)),
            s\<lparr>slots := map (\<lambda>r. if sl_id r = slotId then r\<lparr>sl_status := st\<rparr> else r) (slots s)\<rparr>)"
    using sel role written schema by (simp add: updateSlot_def)
  then show ?thesis by simp
qed

lemma updateSlot_no_status_guard_example:
  "updateSlot calm dbBooked (Some userX) ''s1'' (statusBody Available)
     = (Inr (Reply 200 ''Slot updated successfully'' slot0900),
        dbBooked\<lparr>slots := [slot0900]\<rparr>)
   \<and> consultations (snd (updateSlot calm dbBooked (Some userX) ''s1'' (statusBody Available)))
     = [consBooked]
   \<and> c_status consBooked = Scheduled \<and> c_slot_id consBooked = Some ''s1''"
  using updateSlot_no_status_guard
    [where e = calm and s = dbBooked and slotId = "''s1''" and u = userX
       and slot = "slot0900\<lparr>sl_status := Booked\<rparr>" and st = Available]
  by (simp add: calm_def dbBooked_def db0_def userX_def doctorX_def slot0900_def
      select_single_def embed_doctor_def consBooked_def consDone_def)

text \<open>
  The date and the times of a slot are another matter. Whatever the request and
  whatever the store answers, \<^verbatim>\<open>updateSlot\<close> leaves the date and the times of every slot
  as they were: its payload names them \<^verbatim>\<open>slotDate\<close>, \<^verbatim>\<open>startTime\<close> and \<^verbatim>\<open>endTime\<close>,
  and the columns are \<^verbatim>\<open>slot_date\<close>, \<^verbatim>\<open>start_time\<close> and \<^verbatim>\<open>end_time\<close>.
\<close>

lemma updateSlot_keeps_times:
  "map (\<lambda>r. (sl_slot_date r, sl_start_time r, sl_end_time r))
       (slots (snd (updateSlot e s user slotId b)))
   = map (\<lambda>r. (sl_slot_date r, sl_start_time r, sl_end_time r)) (slots s)"
  by (auto simp add: updateSlot_def update_single_def updateSlot_payload_def
      split: option.splits if_splits)

text \<open>
  C10. The owner or an admin should be able to change the date and the times of a slot
  through \<^verbatim>\<open>updateSlot\<close>, as \<^verbatim>\<open>updateSlotSchema\<close> provides for. The code does not get
  there: an admin asks for the times 10:00--10:30 for the slot 09:00--09:30; the
  keys that reach the store are \<^verbatim>\<open>startTime\<close> and \<^verbatim>\<open>endTime\<close>, no columns of the table;
  the answer is 500 and the slot keeps its times.
\<close>

theorem updateSlot_times_not_changed:
  "updateSlot_keys timesBody = [''startTime'', ''endTime'']
   \<and> ''startTime'' \<notin> set slot_columns \<and> ''endTime'' \<notin> set slot_columns
   \<and> updateSlot calm dbBooked (Some adminA) ''s1'' timesBody
     = (Inl (AppError ''Failed to update slot'' 500), dbBooked)
   \<and> map sl_start_time (slots dbBooked) = [''09:00:00'']
   \<and> map sl_end_time (slots dbBooked) = [''09:30:00'']"
  by (simp add: updateSlot_def updateSlotSchema_def digit_def select_single_def update_single_def
      payload_ok_def slot_columns_def updateSlot_keys_def timesBody_def calm_def dbBooked_def
      db0_def adminA_def slot0900_def)

subsection \<open>Login\<close>

text \<open>
  C8, as stated, fails: the check of \<^verbatim>\<open>is_active\<close> comes before the comparison of the
  password. A wrong password for a deactivated account is answered 403, \<^verbatim>\<open>Account is
  deactivated\<close>, and for an unknown email 401: the two answers differ.
\<close>

theorem login_wrong_password_distinguishes:
  "\<not> bcrypt_compare calm ''wrong'' (u_password_hash userOff)
   \<and> fst (login calm dbUsers \<lparr>lg_email = ''bob@example.org'', lg_password = ''wrong''\<rparr>)
     = Inl (AppError ''Account is deactivated'' 403)
   \<and> fst (login calm dbUsers \<lparr>lg_email = ''carol@example.org'', lg_password = ''wrong''\<rparr>)
     = Inl (AppError ''Invalid email or password'' 401)"
  by (simp add: login_def loginSchema_def select_single_def calm_def dbUsers_def db0_def
      userActive_def userOff_def)

text \<open>
  C8, amended. For a validated login request: an unknown email is answered 401,
  \<^verbatim>\<open>Invalid email or password\<close>; a deactivated account is answered 403 whatever the
  password; a wrong password for an active account is answered 401 with the same message
  as an unknown email; each leaves the store as it was. A right password for an active
  account is answered 200 with the signed token, and the last-login time is set to the
  clock when the store accepts that update. An answer 403 is given only for a
  deactivated account.
\<close>

theorem login_outcomes:
  assumes schema: "loginSchema e b"
  shows "(lg_email b \<notin> set (map u_email (users s)) \<longrightarrow>
            login e s b = (Inl (AppError ''Invalid email or password'' 401), s))
       \<and> (select_single (fails e SelectUser) (\<lambda>r. u_email r = lg_email b) (users s) = Some user \<longrightarrow>
            (\<not> u_is_active user \<longrightarrow>
               login e s b = (Inl (AppError ''Account is deactivated'' 403), s))
          \<and> (u_is_active user \<and> \<not> bcrypt_compare e (lg_password b) (u_password_hash user) \<longrightarrow>
               login e s b = (Inl (AppError ''Invalid email or password'' 401), s))
          \<and> (u_is_active user \<and> bcrypt_compare e (lg_password b) (u_password_hash user) \<longrightarrow>
               fst (login e s b) =
                 Inr (Reply 200 ''Login successful''
                        \<lparr>ad_id = u_id user, ad_email = u_email user, ad_role = u_role user,
                         ad_token = jwt_sign e (u_id user) (u_email user) (u_role user)\<rparr>)
             \<and> (\<not> fails e UpdateLastLogin \<longrightarrow>
                  users (snd (login e s b)) =
                    map (\<lambda>r. if u_id r = u_id user then r\<lparr>u_last_login := Some (nowISO e)\<rparr> else r)
                        (users s))))
       \<and> (fst (login e s b) = Inl (AppError m 403) \<longrightarrow>
            (\<exists>r. select_single (fails e SelectUser) (\<lambda>r. u_email r = lg_email b) (users s) = Some r
                 \<and> \<not> u_is_active r))"
proof (intro conjI impI)
  assume "lg_email b \<notin> set (map u_email (users s))"
  then have "filter (\<lambda>r. u_email r = lg_email b) (users s) = []"
    by (rule filter_key_absent)
  then show "login e s b = (Inl (AppError ''Invalid email or password'' 401), s)"
    using schema by (simp add: login_def select_single_def)
next
  assume "select_single (fails e SelectUser) (\<lambda>r. u_email r = lg_email b) (users s) = Some user"
    and "\<not> u_is_active user"
  then show "login e s b = (Inl (AppError ''Account is deactivated'' 403), s)"
    using schema by (simp add: login_def)
next
  assume "select_single (fails e SelectUser) (\<lambda>r. u_email r = lg_email b) (users s) = Some user"
    and "u_is_active user \<and> \<not> bcrypt_compare e (lg_password b) (u_password_hash user)"
  then show "login e s b = (Inl (AppError ''Invalid email or password'' 401), s)"
    using schema by (simp add: login_def)
next
  assume sel: "select_single (fails e SelectUser) (\<lambda>r. u_email r = lg_email b) (users s) = Some user"
    and ok: "u_is_active user \<and> bcrypt_compare e (lg_password b) (u_password_hash user)"
  show "fst (login e s b) =
          Inr (Reply 200 ''Login successful''
                 \<lparr>ad_id = u_id user, ad_email = u_email user, ad_role = u_role user,
                  ad_token = jwt_sign e (u_id user) (u_email user) (u_role user)\<rparr>)"
    using schema sel ok by (simp add: login_def generateToken_def)
  assume "\<not> fails e UpdateLastLogin"
  then show "users (snd (login e s b)) =
          map (\<lambda>r. if u_id r = u_id user then r\<lparr>u_last_login := Some (nowISO e)\<rparr> else r) (users s)"
    using schema sel ok by (simp add: login_def update_rows_def)
next
  assume "fst (login e s b) = Inl (AppError m 403)"
  then show "\<exists>r. select_single (fails e SelectUser) (\<lambda>r. u_email r = lg_email b) (users s) = Some r
                 \<and> \<not> u_is_active r"
    by (auto simp add: login_def split: if_splits option.splits)
qed

theorem login_outcomes_witness:
  "login calm dbUsers \<lparr>lg_email = ''carol@example.org'', lg_password = ''secret12''\<rparr>
     = (Inl (AppError ''Invalid email or password'' 401), dbUsers)
   \<and> login calm dbUsers \<lparr>lg_email = ''bob@example.org'', lg_password = ''secret34''\<rparr>
     = (Inl (AppError ''Account is deactivated'' 403), dbUsers)
   \<and> login calm dbUsers \<lparr>lg_email = ''ann@example.org'', lg_password = ''wrong''\<rparr>
     = (Inl (AppError ''Invalid email or password'' 401), dbUsers)
   \<and> fst (login calm dbUsers \<lparr>lg_email = ''ann@example.org'', lg_password = ''secret12''\<rparr>)
     = Inr (Reply 200 ''Login successful''
              \<lparr>ad_id = ''u1'', ad_email = ''ann@example.org'', ad_role = RoleUser,
               ad_token = ''jwt:u1''\<rparr>)
   \<and> users (snd (login calm dbUsers \<lparr>lg_email = ''ann@example.org'', lg_password = ''secret12''\<rparr>))
     = [userActive\<lparr>u_last_login := Some ''2025-02-01T08:00:00.000Z''\<rparr>, userOff]"
proof -
  have a: "login calm dbUsers \<lparr>lg_email = ''carol@example.org'', lg_password = ''secret12''\<rparr>
     = (Inl (AppError ''Invalid email or password'' 401), dbUsers)"
    using login_outcomes
      [where e = calm and s = dbUsers and user = userOff
         and b = "\<lparr>lg_email = ''carol@example.org'', lg_password = ''secret12''\<rparr>"]
    by (simp add: calm_def dbUsers_def db0_def userActive_def userOff_def loginSchema_def)
  have b: "login calm dbUsers \<lparr>lg_email = ''bob@example.org'', lg_password = ''secret34''\<rparr>
     = (Inl (AppError ''Account is deactivated'' 403), dbUsers)"
    using login_outcomes
      [where e = calm and s = dbUsers and user = userOff
         and b = "\<lparr>lg_email = ''bob@example.org'', lg_password = ''secret34''\<rparr>"]
    by (simp add: calm_def dbUsers_def db0_def userActive_def userOff_def loginSchema_def
        select_single_def)
  have c: "login calm dbUsers \<lparr>lg_email = ''ann@example.org'', lg_password = ''wrong''\<rparr>
     = (Inl (AppError ''Invalid email or password'' 401), dbUsers)"
    using login_outcomes
      [where e = calm and s = dbUsers and user = userActive
         and b = "\<lparr>lg_email = ''ann@example.org'', lg_password = ''wrong''\<rparr>"]
    by (simp add: calm_def dbUsers_def db0_def userActive_def userOff_def loginSchema_def
        select_single_def)
  have d: "fst (login calm dbUsers \<lparr>lg_email = ''ann@example.org'', lg_password = ''secret12''\<rparr>)
     = Inr (Reply 200 ''Login successful''
              \<lparr>ad_id = ''u1'', ad_email = ''ann@example.org'', ad_role = RoleUser,
               ad_token = ''jwt:u1''\<rparr>)
   \<and> users (snd (login calm dbUsers \<lparr>lg_email = ''ann@example.org'', lg_password = ''secret12''\<rparr>))
     = [userActive\<lparr>u_last_login := Some ''2025-02-01T08:00:00.000Z''\<rparr>, userOff]"
    using login_outcomes
      [where e = calm and s = dbUsers and user = userActive
         and b = "\<lparr>lg_email = ''ann@example.org'', lg_password = ''secret12''\<rparr>"]
    by (simp add: calm_def dbUsers_def db0_def userActive_def userOff_def loginSchema_def
        select_single_def)
  from a b c d show ?thesis by simp
qed

subsection \<open>Registration\<close>

text \<open>In a table whose rows have distinct keys, a key that occurs selects exactly one row.\<close>

lemma filter_key_distinct:
  assumes "distinct (map key t)" and "k \<in> set (map key t)"
  shows "\<exists>r. filter (\<lambda>x. key x = k) t = [r]"
  using assms
proof (induction t)
  case Nil
  then show ?case by simp
next
  case (Cons a t)
  show ?case
  proof (cases "key a = k")
    case True
    then have "k \<notin> set (map key t)" using Cons.prems(1) by auto
    then have "filter (\<lambda>x. key x = k) t = []" by (rule filter_key_absent)
    then show ?thesis using True by simp
  next
    case False
    then have "k \<in> set (map key t)" using Cons.prems(2) by auto
    moreover have "distinct (map key t)" using Cons.prems(1) by simp
    ultimately obtain r where "filter (\<lambda>x. key x = k) t = [r]" using Cons.IH by blast
    then show ?thesis using False by simp
  qed
qed

lemma select_single_None_absent:
  assumes "distinct (map key t)" and "select_single False (\<lambda>x. key x = k) t = None"
  shows "k \<notin> set (map key t)"
proof
  assume "k \<in> set (map key t)"
  then obtain r where "filter (\<lambda>x. key x = k) t = [r]"
    using filter_key_distinct [OF assms(1)] by blast
  then show False using assms(2) by (simp add: select_single_def)
qed

lemma insert_single_Some:
  assumes "insert_single err key row t = Some (r, t')"
  shows "r = row" and "t' = t @ [row]" and "key row \<notin> set (map key t)"
  using assms by (auto simp add: insert_single_def split: if_splits)

text \<open>
  What \<^verbatim>\<open>register\<close> does to the table of users: nothing, or, the lookup by email having
  found no user, one more row.
\<close>

lemma register_users:
  "users (snd (register e s b)) = users s \<or>
   select_single (fails e SelectUser) (\<lambda>r. u_email r = rg_email b) (users s) = None \<and>
   users (snd (register e s b)) = users s @ [new_user e b (bcrypt_hash e (rg_password b))]"
proof -
  let ?row = "new_user e b (bcrypt_hash e (rg_password b))"
  show ?thesis
  proof (cases "insert_single (fails e InsertUser) u_id ?row (users s)")
    case None
    then show ?thesis
      by (simp add: register_def Let_def split: option.split)
  next
    case (Some ut)
    then obtain r t where ut: "ut = (r, t)" by (cases ut)
    have r: "r = ?row" and t: "t = users s @ [?row]"
      and fresh: "u_id ?row \<notin> set (map u_id (users s))"
      using insert_single_Some [of "fails e InsertUser" u_id ?row "users s" r t] Some ut
      by simp_all
    have del: "filter (\<lambda>x. u_id x \<noteq> u_id ?row) (users s @ [?row]) = users s"
      by (rule filter_key_fresh(2) [OF fresh])
    show ?thesis
      using Some ut r t del
      by (simp add: register_def Let_def insert_rows_def delete_rows_def
          split: option.splits if_splits)
  qed
qed

text \<open>
  So \<^verbatim>\<open>register\<close> keeps the emails of the table distinct as long as its lookup is
  answered.
\<close>

lemma register_keeps_emails_unique:
  assumes "\<not> fails e SelectUser" and "distinct (map u_email (users s))"
  shows "distinct (map u_email (users (snd (register e s b))))"
proof -
  let ?row = "new_user e b (bcrypt_hash e (rg_password b))"
  from register_users [of e s b] show ?thesis
  proof (elim disjE conjE)
    assume "users (snd (register e s b)) = users s"
    then show ?thesis using assms(2) by simp
  next
    assume none: "select_single (fails e SelectUser) (\<lambda>r. u_email r = rg_email b) (users s) = None"
      and app: "users (snd (register e s b)) = users s @ [?row]"
    have "rg_email b \<notin> set (map u_email (users s))"
      using select_single_None_absent [OF assms(2)] none assms(1) by simp
    then show ?thesis using app assms(2) by (simp add: new_user_def)
  qed
qed

text \<open>
  C7, as stated, fails: \<^verbatim>\<open>register\<close> takes \<^verbatim>\<open>data\<close> of the lookup and drops its
  \<^verbatim>\<open>error\<close>, so a lookup that fails reads as no user found. Here a user with the email
  exists, the lookup fails, and the answer is 201 with a second user of that email.
\<close>

theorem register_duplicate_after_failed_lookup:
  "map u_email (users dbUsers) = [''ann@example.org'', ''bob@example.org'']
   \<and> rg_email regBody = ''ann@example.org''
   \<and> fst (register (failing SelectUser) dbUsers regBody)
     = Inr (Reply 201 ''User registered successfully''
              \<lparr>ad_id = ''n1'', ad_email = ''ann@example.org'', ad_role = RoleUser,
               ad_token = ''jwt:n1''\<rparr>)
   \<and> map u_email (users (snd (register (failing SelectUser) dbUsers regBody)))
     = [''ann@example.org'', ''bob@example.org'', ''ann@example.org'']"
  by (simp add: register_def registerSchema_def select_single_def insert_single_def
      insert_rows_def new_user_def role_or_default_def generateToken_def failing_def calm_def
      regBody_def dbUsers_def db0_def userActive_def userOff_def)

text \<open>
  C7, amended. For a validated request: when the lookup by email is answered and finds
  the one user with the email, \<^verbatim>\<open>register\<close> fails with 409 and writes nothing. When the
  insert of the profile fails after the user was inserted, the answer is the error 500
  and the user just inserted is deleted again: with the delete accepted by the store the
  state is as before the request; were the delete refused too, the inserted user would
  stay, so it is this delete that removes the row. With the delete accepted, every
  failed registration leaves the tables of users and profiles as they were; and in
  every case each profile that a registration adds belongs to a user of the resulting
  store.
\<close>

theorem register_conflict_and_rollback:
  assumes schema: "registerSchema e b"
  shows "(\<not> fails e SelectUser \<and> filter (\<lambda>r. u_email r = rg_email b) (users s) = [x] \<longrightarrow>
            register e s b = (Inl (AppError ''User with this email already exists'' 409), s))
       \<and> (select_single (fails e SelectUser) (\<lambda>r. u_email r = rg_email b) (users s) = None \<and>
          \<not> fails e InsertUser \<and> newId e \<notin> set (map u_id (users s)) \<and>
          fails e InsertProfile \<longrightarrow>
            (\<not> fails e DeleteUser \<longrightarrow>
               register e s b = (Inl (AppError ''Failed to create user profile'' 500), s))
          \<and> (fails e DeleteUser \<longrightarrow>
               register e s b =
                 (Inl (AppError ''Failed to create user profile'' 500),
                  s\<lparr>users := users s @ [new_user e b (bcrypt_hash e (rg_password b))]\<rparr>)))
       \<and> (\<not> fails e DeleteUser \<and> fst (register e s b) = Inl f \<longrightarrow>
            users (snd (register e s b)) = users s \<and> profiles (snd (register e s b)) = profiles s)
       \<and> (\<forall>p \<in> set (profiles (snd (register e s b))).
            p \<in> set (profiles s) \<or> pr_user_id p \<in> set (map u_id (users (snd (register e s b)))))"
proof (intro conjI impI)
  assume "\<not> fails e SelectUser \<and> filter (\<lambda>r. u_email r = rg_email b) (users s) = [x]"
  then show "register e s b = (Inl (AppError ''User with this email already exists'' 409), s)"
    using schema by (simp add: register_def select_single_def)
next
  let ?row = "new_user e b (bcrypt_hash e (rg_password b))"
  assume a: "select_single (fails e SelectUser) (\<lambda>r. u_email r = rg_email b) (users s) = None \<and>
          \<not> fails e InsertUser \<and> newId e \<notin> set (map u_id (users s)) \<and> fails e InsertProfile"
  have key: "u_id ?row = newId e" by (simp add: new_user_def)
  have fresh: "u_id ?row \<notin> set (map u_id (users s))" using a key by simp
  have ins: "insert_single (fails e InsertUser) u_id ?row (users s) = Some (?row, users s @ [?row])"
    using a by (simp add: insert_single_def key)
  have del: "filter (\<lambda>x. u_id x \<noteq> u_id ?row) (users s @ [?row]) = users s"
    by (rule filter_key_fresh(2) [OF fresh])
  {
    assume "\<not> fails e DeleteUser"
    then show "register e s b = (Inl (AppError ''Failed to create user profile'' 500), s)"
      using schema a ins del
      by (simp add: register_def Let_def insert_rows_def delete_rows_def)
  }
  {
    assume "fails e DeleteUser"
    then show "register e s b =
                 (Inl (AppError ''Failed to create user profile'' 500),
                  s\<lparr>users := users s @ [?row]\<rparr>)"
      using schema a ins
      by (simp add: register_def Let_def insert_rows_def delete_rows_def)
  }
next
  let ?row = "new_user e b (bcrypt_hash e (rg_password b))"
  assume a: "\<not> fails e DeleteUser \<and> fst (register e s b) = Inl f"
  have both: "users (snd (register e s b)) = users s \<and> profiles (snd (register e s b)) = profiles s"
  proof (cases "insert_single (fails e InsertUser) u_id ?row (users s)")
    case None
    then show ?thesis
      by (simp add: register_def Let_def split: option.split)
  next
    case (Some ut)
    then obtain r t where ut: "ut = (r, t)" by (cases ut)
    have r: "r = ?row" and t: "t = users s @ [?row]"
      and fresh: "u_id ?row \<notin> set (map u_id (users s))"
      using insert_single_Some [of "fails e InsertUser" u_id ?row "users s" r t] Some ut
      by simp_all
    have del: "filter (\<lambda>x. u_id x \<noteq> u_id ?row) (users s @ [?row]) = users s"
      by (rule filter_key_fresh(2) [OF fresh])
    show ?thesis
      using a Some ut r t del
      by (simp add: register_def Let_def insert_rows_def delete_rows_def
          split: option.splits if_splits)
  qed
  from both show "users (snd (register e s b)) = users s" ..
  from both show "profiles (snd (register e s b)) = profiles s" ..
next
  show "\<forall>p \<in> set (profiles (snd (register e s b))).
            p \<in> set (profiles s) \<or> pr_user_id p \<in> set (map u_id (users (snd (register e s b))))"
    by (auto simp add: register_def Let_def insert_rows_def insert_single_def
        split: option.splits if_splits)
qed

theorem register_conflict_and_rollback_witness:
  "register calm dbUsers regBody
     = (Inl (AppError ''User with this email already exists'' 409), dbUsers)
   \<and> register (failing InsertProfile) db0 regBody
     = (Inl (AppError ''Failed to create user profile'' 500), db0)
   \<and> register (failing2 InsertProfile DeleteUser) db0 regBody
     = (Inl (AppError ''Failed to create user profile'' 500),
        db0\<lparr>users := [new_user (failing2 InsertProfile DeleteUser) regBody ''#secret12'']\<rparr>)
   \<and> users (snd (register (failing InsertUser) db0 regBody)) = []
   \<and> profiles (snd (register calm db0 regBody))
     = [\<lparr>pr_user_id = ''n1'', pr_first_name = ''Ann'', pr_last_name = ''Lee'',
         pr_date_of_birth = None, pr_gender = None\<rparr>]
   \<and> map u_id (users (snd (register calm db0 regBody))) = [''n1'']"
proof -
  have a: "register calm dbUsers regBody
     = (Inl (AppError ''User with this email already exists'' 409), dbUsers)"
    using register_conflict_and_rollback
      [where e = calm and b = regBody and s = dbUsers and x = userActive]
    by (simp add: calm_def regBody_def dbUsers_def db0_def userActive_def userOff_def
        registerSchema_def)
  have b: "register (failing InsertProfile) db0 regBody
     = (Inl (AppError ''Failed to create user profile'' 500), db0)"
    using register_conflict_and_rollback
      [where e = "failing InsertProfile" and b = regBody and s = db0]
    by (simp add: failing_def calm_def regBody_def db0_def registerSchema_def select_single_def)
  have c: "register (failing2 InsertProfile DeleteUser) db0 regBody
     = (Inl (AppError ''Failed to create user profile'' 500),
        db0\<lparr>users := [new_user (failing2 InsertProfile DeleteUser) regBody ''#secret12'']\<rparr>)"
    using register_conflict_and_rollback
      [where e = "failing2 InsertProfile DeleteUser" and b = regBody and s = db0]
    by (simp add: failing2_def calm_def regBody_def db0_def registerSchema_def select_single_def)
  have d: "users (snd (register (failing InsertUser) db0 regBody)) = []"
    using register_conflict_and_rollback
      [where e = "failing InsertUser" and b = regBody and s = db0
         and f = "AppError ''store error'' 500"]
    by (simp add: failing_def calm_def regBody_def db0_def registerSchema_def select_single_def
        register_def insert_single_def)
  have e: "profiles (snd (register calm db0 regBody))
     = [\<lparr>pr_user_id = ''n1'', pr_first_name = ''Ann'', pr_last_name = ''Lee'',
         pr_date_of_birth = None, pr_gender = None\<rparr>]
   \<and> map u_id (users (snd (register calm db0 regBody))) = [''n1'']"
    by (simp add: register_def registerSchema_def select_single_def insert_single_def
        insert_rows_def new_user_def calm_def regBody_def db0_def)
  from a b c d e show ?thesis by simp
qed

subsection \<open>Prescriptions\<close>

text \<open>
  The number of rows that \<^verbatim>\<open>.in('id', ids)\<close> selects from a table with distinct ids is
  the number of distinct ids that occur in the table.
\<close>

lemma length_filter_keys:
  assumes "distinct (map key t)"
  shows "length (filter (\<lambda>m. key m \<in> set ks) t) = card (set ks \<inter> set (map key t))"
proof -
  have "distinct (map key (filter (\<lambda>m. key m \<in> set ks) t))"
    using assms by (rule distinct_map_filter)
  then have "card (set (map key (filter (\<lambda>m. key m \<in> set ks) t)))
              = length (map key (filter (\<lambda>m. key m \<in> set ks) t))"
    by (rule distinct_card)
  moreover have "set (map key (filter (\<lambda>m. key m \<in> set ks) t)) = set ks \<inter> set (map key t)"
    by auto
  ultimately show ?thesis by simp
qed


lemma length_filter_keys_duplicate:
  assumes "distinct (map key t)" and "\<not> distinct ks"
  shows "length (filter (\<lambda>m. key m \<in> set ks) t) < length ks"
proof -
  have "card (set ks \<inter> set (map key t)) \<le> card (set ks)"
    by (simp add: card_mono)
  moreover have "card (set ks) \<noteq> length ks" using assms(2) card_distinct by blast
  moreover have "card (set ks) \<le> length ks" by (rule card_length)
  ultimately show ?thesis using length_filter_keys [OF assms(1)] by simp
qed

text \<open>
  Past the guards on the doctor and the consultation and with no prescription found,
  fewer medicine rows than items give 404.
\<close>

lemma createPrescription_after_guards:
  assumes schema: "createPrescriptionSchema e b"
    and doc: "select_single (fails e SelectDoctor) (\<lambda>d. d_user_id d = au_id u) (doctors s) = Some doctor"
    and con: "select_single (fails e SelectConsultation) (\<lambda>c. c_id c = cp_consultationId b)
                (consultations s) = Some c"
    and own: "c_doctor_id c = d_id doctor"
    and st: "c_status c = Completed \<or> c_status c = Ongoing"
    and none: "select_single (fails e SelectPrescription)
                 (\<lambda>p. p_consultation_id p = cp_consultationId b) (prescriptions s) = None"
    and short: "length (filter (\<lambda>m. m_id m \<in> set (map it_medicineId (cp_items b))) (medicines s))
                  < length (cp_items b)"
  shows "createPrescription e s (Some u) b = (Inl (AppError ''One or more medicines not found'' 404), s)"
  using assms
  by (auto simp add: createPrescription_def Let_def select_rows_def)

text \<open>
  What \<^verbatim>\<open>createPrescription\<close> does to the table of prescriptions: nothing, or, the
  lookup having found no prescription of the consultation, one more row for it. So it
  keeps to one prescription a consultation as long as its lookup is answered.
\<close>

lemma createPrescription_prescriptions:
  "prescriptions (snd (createPrescription e s user b)) = prescriptions s \<or>
   (\<exists>row. select_single (fails e SelectPrescription)
             (\<lambda>p. p_consultation_id p = cp_consultationId b) (prescriptions s) = None \<and>
          p_consultation_id row = cp_consultationId b \<and>
          prescriptions (snd (createPrescription e s user b)) = prescriptions s @ [row])"
proof -
  have rollback: "filter (\<lambda>x. p_id x \<noteq> p_id r) t' = t \<and> t' = t @ [row] \<and> r = row"
    if "insert_single err p_id row t = Some (r, t')"
    for err and row :: prescription_row and t r t'
    using insert_single_Some [OF that] filter_key_fresh(2) [of p_id row t] by simp
  show ?thesis
    by (auto simp add: createPrescription_def Let_def insert_rows_def delete_rows_def
        new_prescription_def dest!: rollback split: option.splits if_splits)
qed

lemma createPrescription_keeps_one_per_consultation:
  assumes "\<not> fails e SelectPrescription"
    and "distinct (map p_consultation_id (prescriptions s))"
  shows "distinct (map p_consultation_id (prescriptions (snd (createPrescription e s user b))))"
proof -
  from createPrescription_prescriptions [of e s user b] show ?thesis
  proof (elim disjE exE conjE)
    assume "prescriptions (snd (createPrescription e s user b)) = prescriptions s"
    then show ?thesis using assms(2) by simp
  next
    fix row
    assume none: "select_single (fails e SelectPrescription)
             (\<lambda>p. p_consultation_id p = cp_consultationId b) (prescriptions s) = None"
      and row: "p_consultation_id row = cp_consultationId b"
      and app: "prescriptions (snd (createPrescription e s user b)) = prescriptions s @ [row]"
    have "cp_consultationId b \<notin> set (map p_consultation_id (prescriptions s))"
      using select_single_None_absent [OF assms(2)] none assms(1) by simp
    then show ?thesis using app row assms(2) by simp
  qed
qed




text \<open>
  C9. Past the same guards and with no prescription found: when the items name some
  medicine id more than once, \<^verbatim>\<open>createPrescription\<close> fails with 404, \<^verbatim>\<open>One or more
  medicines not found\<close>, whether or not every medicine named exists and is in stock
  (ids being unique in the table of medicines), and the store is unchanged.
\<close>

theorem createPrescription_duplicate_medicine:
  assumes schema: "createPrescriptionSchema e b"
    and doc: "select_single (fails e SelectDoctor) (\<lambda>d. d_user_id d = au_id u) (doctors s) = Some doctor"
    and con: "select_single (fails e SelectConsultation) (\<lambda>c. c_id c = cp_consultationId b)
                (consultations s) = Some c"
    and own: "c_doctor_id c = d_id doctor"
    and st: "c_status c = Completed \<or> c_status c = Ongoing"
    and none: "select_single (fails e SelectPrescription)
                 (\<lambda>p. p_consultation_id p = cp_consultationId b) (prescriptions s) = None"
    and pk: "distinct (map m_id (medicines s))"
    and dup: "\<not> distinct (map it_medicineId (cp_items b))"
  shows "createPrescription e s (Some u) b = (Inl (AppError ''One or more medicines not found'' 404), s)"
proof -
  have "length (filter (\<lambda>m. m_id m \<in> set (map it_medicineId (cp_items b))) (medicines s))
          < length (map it_medicineId (cp_items b))"
    by (rule length_filter_keys_duplicate [OF pk dup])
  then show ?thesis
    using createPrescription_after_guards [OF schema doc con own st none] by simp
qed

theorem createPrescription_duplicate_medicine_witness:
  "medicines dbRx = [medA, medB, medC] \<and> m_id medA = ''m1'' \<and> m_in_stock medA
   \<and> map it_medicineId (cp_items (rxBody [''m1'', ''m1''])) = [''m1'', ''m1'']
   \<and> createPrescription calm dbRx (Some userX) (rxBody [''m1'', ''m1''])
     = (Inl (AppError ''One or more medicines not found'' 404), dbRx)"
  using createPrescription_duplicate_medicine
    [where e = calm and b = "rxBody [''m1'', ''m1'']" and s = dbRx and u = userX
       and doctor = doctorX and c = consDone]
  by (simp add: calm_def rxBody_def item_def dbRx_def db0_def userX_def doctorX_def consDone_def
      medA_def medB_def medC_def createPrescriptionSchema_def select_single_def)

end
